theory Spec2Isabelle
  imports Main "HOL-Library.Word"
begin

section \<open>Values of the Go program\<close>

text \<open>
  A Go \<open>[]byte\<close> and the contents of files and streams are lists of 8-bit words; a Go
  \<open>string\<close> (paths, argument tokens, messages) is a \<open>string\<close>. \<open>string_of_bytes\<close> is
  \<open>bytes.Buffer.String()\<close>.
\<close>

type_synonym byte = "8 word"

definition string_of_bytes :: "byte list \<Rightarrow> string" where
  "string_of_bytes bs = map (\<lambda>b. char_of (unat b)) bs"

text \<open>\<open>%d\<close> of a non-negative integer.\<close>

fun decimal :: "nat \<Rightarrow> string" where
  "decimal n =
     (if n < 10 then [''0123456789'' ! n]
      else decimal (n div 10) @ [''0123456789'' ! (n mod 10)])"

declare decimal.simps [simp del]

text \<open>
  How a process that ran has ended (\<open>os.ProcessState\<close>): it exited with a status, or a
  signal ended it. \<open>proc_state_String\<close> is the method \<open>String()\<close>.
\<close>

datatype proc_state = ExitStatus nat | Signaled string

fun proc_state_String :: "proc_state \<Rightarrow> string" where
  "proc_state_String (ExitStatus code) = ''exit status '' @ decimal code"
| "proc_state_String (Signaled sig) = ''signal: '' @ sig"

text \<open>
  Go's \<open>error\<close> values, by dynamic type: \<open>*os.PathError\<close> (operation, path, cause),
  \<open>*exec.ExitError\<close> (the state of a process that did not exit with status 0), and every
  error of which only the message is observable (\<open>errors.New\<close>, \<open>fmt.Errorf\<close>,
  \<open>*exec.Error\<close>, a reader's own error). \<open>error_Error\<close> is the method \<open>Error()\<close>, which
  \<open>%v\<close> prints.
\<close>

datatype error =
    PathError string string string
  | ExitError proc_state
  | ErrorString string

fun error_Error :: "error \<Rightarrow> string" where
  "error_Error (PathError opn path cause) = opn @ '' '' @ path @ '': '' @ cause"
| "error_Error (ExitError st) = proc_state_String st"
| "error_Error (ErrorString msg) = msg"

text \<open>
  What a call of a function of the program ends with: a returned value, a returned
  error, or a panic (\<open>log.Panic\<close>), which no caller's \<open>if err != nil\<close> sees.
\<close>

datatype 'a outcome = Ok 'a | Err error | Panic string

section \<open>The process's world\<close>

text \<open>
  An \<open>io.Reader\<close> is a reference into a store of streams: reading consumes the
  stream for every holder of the reference. A stream is the bytes still to be read and
  how it ends: at EOF (\<open>None\<close>) or with a read error.
\<close>

record stream =
  pending :: "byte list"
  fault :: "error option"

type_synonym reader = nat

datatype level = PanicLevel | ErrorLevel | WarnLevel | InfoLevel | DebugLevel

fun level_rank :: "level \<Rightarrow> nat" where
  "level_rank PanicLevel = 0"
| "level_rank ErrorLevel = 2"
| "level_rank WarnLevel = 3"
| "level_rank InfoLevel = 4"
| "level_rank DebugLevel = 5"

text \<open>
  The state the program acts on: the file system (path to contents), the files this
  process holds open (one entry per open descriptor, by name), the stream store with its
  next free reference, the number of calls of \<open>ioutil.TempFile\<close> so far, and the logger
  (its level and the entries it printed).
\<close>

record world =
  files :: "string \<rightharpoonup> byte list"
  handles :: "string list"
  streams :: "reader \<Rightarrow> stream"
  next_reader :: reader
  tmp_seq :: nat
  log_level :: level
  log_lines :: "(level \<times> string) list"

text \<open>
  What a spawned program did: it could not be started, or it ran and ended (with an exit
  status or by a signal), having written its standard output and standard error and
  changed the file system.
\<close>

datatype proc_exit = SpawnFailed error | Ended proc_state

record proc_result =
  pr_exit :: proc_exit
  pr_stdout :: "byte list"
  pr_stderr :: "byte list"
  pr_files :: "string \<rightharpoonup> byte list"

text \<open>
  The operating system and the libraries outside the repository, as parameters: which
  name \<open>ioutil.TempFile\<close> picks at its n-th call for a pattern, which calls fail and how,
  what \<open>filepath.Abs\<close> and \<open>shellquote.Command\<close> return, and what a program does when
  it is run with given arguments, standard input and file system.
\<close>

record env =
  tempfile_name :: "nat \<Rightarrow> string \<Rightarrow> string"
  tempfile_fault :: "nat \<Rightarrow> string \<Rightarrow> error option"
  abs_path :: "string \<Rightarrow> error + string"
  write_fault :: "string \<Rightarrow> byte list \<Rightarrow> (nat \<times> error) option"
  close_fault :: "string \<Rightarrow> error option"
  open_fault :: "string \<Rightarrow> error option"
  read_fault :: "string \<Rightarrow> error option"
  shellquote_Command :: "string list \<Rightarrow> error + string"
  spawn :: "string \<Rightarrow> string list \<Rightarrow> byte list \<Rightarrow> (string \<rightharpoonup> byte list) \<Rightarrow> proc_result"

subsection \<open>Library calls\<close>

text \<open>logrus: an entry is printed when its level is at most the logger's.\<close>

definition logf :: "level \<Rightarrow> string \<Rightarrow> world \<Rightarrow> world" where
  "logf lvl msg w =
     (if level_rank lvl \<le> level_rank (log_level w)
      then w\<lparr>log_lines := log_lines w @ [(lvl, msg)]\<rparr> else w)"

text \<open>
  \<open>ioutil.TempFile("", pattern)\<close>: creates a file that did not exist (\<open>O_EXCL\<close>),
  empty, and returns it open for writing.
\<close>

definition ioutil_TempFile :: "env \<Rightarrow> string \<Rightarrow> world \<Rightarrow> (error + string) \<times> world" where
  "ioutil_TempFile env pattern w =
     (let n = tmp_seq w; name = tempfile_name env n pattern; w1 = w\<lparr>tmp_seq := Suc n\<rparr> in
      case tempfile_fault env n pattern of
        Some e \<Rightarrow> (Inl e, w1)
      | None \<Rightarrow>
          if files w name \<noteq> None then (Inl (PathError ''open'' name ''file exists''), w1)
          else (Inr name, w1\<lparr>files := (files w)(name \<mapsto> []), handles := name # handles w\<rparr>))"

definition filepath_Abs :: "env \<Rightarrow> string \<Rightarrow> error + string" where
  "filepath_Abs env name = abs_path env name"

definition file_contents :: "world \<Rightarrow> string \<Rightarrow> byte list" where
  "file_contents w name = (case files w name of None \<Rightarrow> [] | Some c \<Rightarrow> c)"

text \<open>
  \<open>io.Copy(dst, src)\<close> for a file \<open>dst\<close> written from its end: the stream is read to
  its end and written to the file; the first write error or, after the data, the
  stream's read error is returned. A failed write leaves the bytes written before it.
\<close>

definition io_Copy :: "env \<Rightarrow> string \<Rightarrow> reader \<Rightarrow> world \<Rightarrow> error option \<times> world" where
  "io_Copy env dst r w =
     (let s = streams w r; data = pending s;
          w1 = w\<lparr>streams := (streams w)(r := s\<lparr>pending := []\<rparr>)\<rparr> in
      case write_fault env dst data of
        Some (n, e) \<Rightarrow> (Some e, w1\<lparr>files := (files w)(dst \<mapsto> file_contents w dst @ take n data)\<rparr>)
      | None \<Rightarrow> (fault s, w1\<lparr>files := (files w)(dst \<mapsto> file_contents w dst @ data)\<rparr>))"

text \<open>\<open>(*os.File).Close\<close>: the descriptor is released whether or not an error is reported.\<close>

definition file_Close :: "env \<Rightarrow> string \<Rightarrow> world \<Rightarrow> error option \<times> world" where
  "file_Close env name w = (close_fault env name, w\<lparr>handles := remove1 name (handles w)\<rparr>)"

definition new_reader :: "stream \<Rightarrow> world \<Rightarrow> reader \<times> world" where
  "new_reader s w =
     (next_reader w, w\<lparr>streams := (streams w)(next_reader w := s), next_reader := Suc (next_reader w)\<rparr>)"

text \<open>\<open>os.Open\<close>: the file, open for reading, is itself the reader.\<close>

definition os_Open :: "env \<Rightarrow> string \<Rightarrow> world \<Rightarrow> (error + reader) \<times> world" where
  "os_Open env name w =
     (case files w name of
        None \<Rightarrow> (Inl (PathError ''open'' name ''no such file or directory''), w)
      | Some c \<Rightarrow>
          (case open_fault env name of
             Some e \<Rightarrow> (Inl e, w)
           | None \<Rightarrow>
               (let (rd, w1) = new_reader \<lparr>pending = c, fault = None\<rparr> w
                in (Inr rd, w1\<lparr>handles := name # handles w1\<rparr>))))"

definition ioutil_ReadFile :: "env \<Rightarrow> string \<Rightarrow> world \<Rightarrow> error + byte list" where
  "ioutil_ReadFile env name w =
     (case files w name of
        None \<Rightarrow> Inl (PathError ''open'' name ''no such file or directory'')
      | Some c \<Rightarrow> (case read_fault env name of Some e \<Rightarrow> Inl e | None \<Rightarrow> Inr c))"

text \<open>
  \<open>exec.Command(command, args...)\<close> with standard input \<open>r\<close> and both outputs
  captured in buffers, then \<open>cmd.Run()\<close>. As os/exec documents it, the returned error is
  nil if the command runs, has no problems copying stdin, stdout and stderr, and exits
  with a zero exit status; a process that ended otherwise gives an \<open>*exec.ExitError\<close>.
  The reader behind standard input is copied to the program to its end, so the problem of
  copying is the read error the stream ends with; the two output buffers take every
  write. A copy problem is reported only when the process itself exited with status 0.
\<close>

record cmd_result =
  cr_out :: "byte list"
  cr_errout :: "byte list"
  cr_err :: "error option"

definition cmd_Run :: "env \<Rightarrow> string \<Rightarrow> string list \<Rightarrow> reader \<Rightarrow> world \<Rightarrow> cmd_result \<times> world" where
  "cmd_Run env command args r w =
     (let s = streams w r; pr = spawn env command args (pending s) (files w) in
      case pr_exit pr of
        SpawnFailed e \<Rightarrow> (\<lparr>cr_out = [], cr_errout = [], cr_err = Some e\<rparr>, w)
      | Ended st \<Rightarrow>
          (\<lparr>cr_out = pr_stdout pr, cr_errout = pr_stderr pr,
            cr_err = (if st = ExitStatus 0 then fault s else Some (ExitError st))\<rparr>,
           w\<lparr>files := pr_files pr, streams := (streams w)(r := s\<lparr>pending := []\<rparr>)\<rparr>))"

section \<open>run.go\<close>

text \<open>
  The interface \<open>Runner\<close>: \<open>Run(r io.Reader, args []string) (io.Reader, error)\<close>, as the
  function of the world that a call is.
\<close>

type_synonym runner = "reader \<Rightarrow> string list \<Rightarrow> world \<Rightarrow> reader outcome \<times> world"

definition logCommand :: "env \<Rightarrow> string \<Rightarrow> string list \<Rightarrow> world \<Rightarrow> unit outcome \<times> world" where
  "logCommand env command args w =
     (case shellquote_Command env (command # args) of
        Inl err \<Rightarrow>
          (let msg = ''shellquote.Command:'' @ error_Error err
           in (Panic msg, logf PanicLevel msg w))
      | Inr txt \<Rightarrow> (Ok (), logf InfoLevel (''Running '' @ txt) w))"

text \<open>The message of \<open>fmt.Errorf("Error running '%s': %v: %s", command, err, errout)\<close>.\<close>

definition exec_error_message :: "string \<Rightarrow> error \<Rightarrow> byte list \<Rightarrow> string" where
  "exec_error_message command err errout =
     ''Error running '' @ [CHR 0x27] @ command @ [CHR 0x27] @ '': '' @ error_Error err
       @ '': '' @ string_of_bytes errout"

definition ExecRunner_Run :: "env \<Rightarrow> string \<Rightarrow> runner" where
  "ExecRunner_Run env command r args w =
     (case logCommand env command args w of
        (Panic p, w1) \<Rightarrow> (Panic p, w1)
      | (Err e, w1) \<Rightarrow> (Err e, w1)
      | (Ok u, w1) \<Rightarrow>
          (let (res, w2) = cmd_Run env command args r w1;
               w3 = logf DebugLevel (''stdout: '' @ string_of_bytes (cr_out res)) w2
           in case cr_err res of
                Some err \<Rightarrow> (Err (ErrorString (exec_error_message command err (cr_errout res))), w3)
              | None \<Rightarrow>
                  (let (rd, w4) = new_reader \<lparr>pending = cr_out res, fault = None\<rparr> w3
                   in (Ok rd, w4))))"

definition OutputFileRunner_Run :: "env \<Rightarrow> runner \<Rightarrow> string \<Rightarrow> runner" where
  "OutputFileRunner_Run env inner expectedOutputFile r args w =
     (case inner r args w of
        (Panic p, w1) \<Rightarrow> (Panic p, w1)
      | (Err err, w1) \<Rightarrow> (Err err, w1)
      | (Ok unused, w1) \<Rightarrow>
          (case os_Open env expectedOutputFile w1 of
             (Inl err, w2) \<Rightarrow> (Err err, w2)
           | (Inr rd, w2) \<Rightarrow> (Ok rd, w2)))"

definition writeTempFile :: "env \<Rightarrow> reader \<Rightarrow> string \<Rightarrow> world \<Rightarrow> string outcome \<times> world" where
  "writeTempFile env r prefix w =
     (case ioutil_TempFile env prefix w of
        (Inl err, w1) \<Rightarrow> (Err err, w1)
      | (Inr tmpfile, w1) \<Rightarrow>
          (case filepath_Abs env tmpfile of
             Inl err \<Rightarrow> (Err err, w1)
           | Inr path \<Rightarrow>
               (let w2 = logf DebugLevel
                           (''Writing file for prefix '' @ prefix @ '' to '' @ path) w1
                in case io_Copy env tmpfile r w2 of
                     (Some err, w3) \<Rightarrow> (Err err, w3)
                   | (None, w3) \<Rightarrow>
                       (case file_Close env tmpfile w3 of
                          (Some err, w4) \<Rightarrow> (Err err, w4)
                        | (None, w4) \<Rightarrow> (Ok path, w4)))))"

text \<open>
  The loop of \<open>MappedFileRunner.Run\<close> over \<open>args\<close>: the list built is \<open>newArgs\<close>, whose
  element \<open>i\<close> the i-th iteration assigns. \<open>inputFileArgs\<close> is a Go map from token to
  reader.
\<close>

fun stage_args :: "env \<Rightarrow> (string \<rightharpoonup> reader) \<Rightarrow> string list \<Rightarrow> world \<Rightarrow> string list outcome \<times> world" where
  "stage_args env inputFileArgs [] w = (Ok [], w)"
| "stage_args env inputFileArgs (arg # rest) w =
     (case inputFileArgs arg of
        Some rd \<Rightarrow>
          (case writeTempFile env rd arg w of
             (Panic p, w1) \<Rightarrow> (Panic p, w1)
           | (Err err, w1) \<Rightarrow> (Err err, w1)
           | (Ok tempFile, w1) \<Rightarrow>
               (case stage_args env inputFileArgs rest w1 of
                  (Ok newArgs, w2) \<Rightarrow> (Ok (tempFile # newArgs), w2)
                | (Err err, w2) \<Rightarrow> (Err err, w2)
                | (Panic p, w2) \<Rightarrow> (Panic p, w2)))
      | None \<Rightarrow>
          (case stage_args env inputFileArgs rest w of
             (Ok newArgs, w2) \<Rightarrow> (Ok (arg # newArgs), w2)
           | (Err err, w2) \<Rightarrow> (Err err, w2)
           | (Panic p, w2) \<Rightarrow> (Panic p, w2)))"

definition MappedFileRunner_Run :: "env \<Rightarrow> runner \<Rightarrow> (string \<rightharpoonup> reader) \<Rightarrow> string \<Rightarrow> runner" where
  "MappedFileRunner_Run env inner inputFileArgs outputFileArg r args w =
     (case stage_args env inputFileArgs args w of
        (Panic p, w1) \<Rightarrow> (Panic p, w1)
      | (Err err, w1) \<Rightarrow> (Err err, w1)
      | (Ok newArgs, w1) \<Rightarrow>
          (case inner r newArgs w1 of
             (Panic p, w2) \<Rightarrow> (Panic p, w2)
           | (Err err, w2) \<Rightarrow> (Err err, w2)
           | (Ok unused, w2) \<Rightarrow>
               (case ioutil_ReadFile env outputFileArg w2 of
                  Inl err \<Rightarrow> (Err err, w2)
                | Inr b \<Rightarrow>
                    (let (rd, w3) = new_reader \<lparr>pending = b, fault = None\<rparr> w2
                     in (Ok rd, w3)))))"

section \<open>cmd/spicy/main.go\<close>

subsection \<open>What main.go uses from outside the two source files\<close>

text \<open>
  The build specification as \<open>mainE\<close> reads it: \<open>spec.Waves\<close>, \<open>w.RawSegments\<close>,
  \<open>seg.Includes\<close> (the types are declared in the package's other files).
\<close>

record raw_segment =
  Includes :: "string list"

record wave =
  Name :: string
  RawSegments :: "raw_segment list"

record spec =
  Waves :: "wave list"

text \<open>
  Modelled from the spec: the ROM image of package n64rom, which is not among the source
  files. The spec's section 3 describes it as a single growable addressable byte buffer,
  pre-initialized with a fill byte and mutated by "write bytes at absolute offset"; section
  6 gives \<open>newBlankImage(fillByte)\<close>, \<open>image.writeAt(bytes, offset)\<close>, \<open>image.save(writer)\<close>
  and the constant \<open>codeStartOffset\<close>.
\<close>

record rom_file =
  rom_fill :: byte
  rom_image :: "byte list"

text \<open>Writing \<open>bs\<close> at offset \<open>off\<close> of a buffer that grows, with \<open>fill\<close> in any gap.\<close>

definition write_at :: "byte \<Rightarrow> byte list \<Rightarrow> nat \<Rightarrow> byte list \<Rightarrow> byte list" where
  "write_at fill img off bs =
     take off (img @ replicate (off - length img) fill) @ bs @ drop (off + length bs) img"

text \<open>
  The functions of package spicy that \<open>mainE\<close> calls and that are not among the source
  files, the constant \<open>n64rom.CodeStart\<close>, the size of a blank image, and the failures
  of the remaining library calls, as parameters.
\<close>

record ext =
  PreprocessSpec :: "reader \<Rightarrow> runner \<Rightarrow> string list \<Rightarrow> string list \<Rightarrow> string list
     \<Rightarrow> world \<Rightarrow> reader outcome \<times> world"
  ParseSpec :: "reader \<Rightarrow> world \<Rightarrow> spec outcome \<times> world"
  CreateRawObjectWrapper :: "reader \<Rightarrow> string \<Rightarrow> runner \<Rightarrow> world \<Rightarrow> reader outcome \<times> world"
  CreateEntryBinary :: "wave \<Rightarrow> runner \<Rightarrow> world \<Rightarrow> reader outcome \<times> world"
  LinkSpec :: "wave \<Rightarrow> runner \<Rightarrow> reader \<Rightarrow> world \<Rightarrow> reader outcome \<times> world"
  BinarizeObject :: "reader \<Rightarrow> runner \<Rightarrow> world \<Rightarrow> reader outcome \<times> world"
  CodeStart :: nat
  blank_size :: nat
  newrom_fault :: "byte \<Rightarrow> error option"
  rom_write_fault :: "byte list \<Rightarrow> nat \<Rightarrow> error option"
  rom_save_fault :: "string \<Rightarrow> error option"
  create_fault :: "string \<Rightarrow> error option"
  writeat_fault :: "string \<Rightarrow> int \<Rightarrow> error option"

definition NewBlankRomFile :: "ext \<Rightarrow> byte \<Rightarrow> error + rom_file" where
  "NewBlankRomFile ext fill =
     (case newrom_fault ext fill of
        Some e \<Rightarrow> Inl e
      | None \<Rightarrow> Inr \<lparr>rom_fill = fill, rom_image = replicate (blank_size ext) fill\<rparr>)"

text \<open>\<open>rom.WriteAt(p, off)\<close>: the error it returns, and the image after the call.\<close>

definition rom_WriteAt :: "ext \<Rightarrow> rom_file \<Rightarrow> byte list \<Rightarrow> nat \<Rightarrow> error option \<times> rom_file" where
  "rom_WriteAt ext rom p off =
     (case rom_write_fault ext p off of
        Some e \<Rightarrow> (Some e, rom)
      | None \<Rightarrow> (None, rom\<lparr>rom_image := write_at (rom_fill rom) (rom_image rom) off p\<rparr>))"

text \<open>
  \<open>rom.Save(out)\<close> for a file on which nothing has moved the offset from 0: the image's
  bytes are written from the start of the file.
\<close>

definition rom_Save :: "ext \<Rightarrow> rom_file \<Rightarrow> string \<Rightarrow> world \<Rightarrow> error option \<times> world" where
  "rom_Save ext rom out w =
     (case rom_save_fault ext out of
        Some e \<Rightarrow> (Some e, w)
      | None \<Rightarrow>
          (None, w\<lparr>files := (files w)(out \<mapsto> write_at 0 (file_contents w out) 0 (rom_image rom))\<rparr>))"

text \<open>\<open>os.Create\<close>: the file is created or truncated and returned open.\<close>

definition os_Create :: "ext \<Rightarrow> string \<Rightarrow> world \<Rightarrow> (error + string) \<times> world" where
  "os_Create ext name w =
     (case create_fault ext name of
        Some e \<Rightarrow> (Inl e, w)
      | None \<Rightarrow> (Inr name, w\<lparr>files := (files w)(name \<mapsto> []), handles := name # handles w\<rparr>))"

text \<open>
  \<open>(*os.File).WriteAt(b, off)\<close>: a negative offset is an error; otherwise the bytes are
  written at \<open>off\<close>, the file growing with zero bytes in the gap.
\<close>

definition file_WriteAt :: "ext \<Rightarrow> string \<Rightarrow> byte list \<Rightarrow> int \<Rightarrow> world \<Rightarrow> error option \<times> world" where
  "file_WriteAt ext name b off w =
     (if off < 0 then (Some (PathError ''writeat'' name ''negative offset''), w)
      else case writeat_fault ext name off of
             Some e \<Rightarrow> (Some e, w)
           | None \<Rightarrow>
               (None, w\<lparr>files := (files w)(name \<mapsto> write_at 0 (file_contents w name) (nat off) b)\<rparr>))"

text \<open>\<open>ioutil.ReadAll\<close>: the stream is read to its end; its read error, if any, is returned.\<close>

definition ioutil_ReadAll :: "reader \<Rightarrow> world \<Rightarrow> (error + byte list) \<times> world" where
  "ioutil_ReadAll r w =
     (let s = streams w r; w1 = w\<lparr>streams := (streams w)(r := s\<lparr>pending := []\<rparr>)\<rparr> in
      case fault s of
        Some e \<Rightarrow> (Inl e, w1)
      | None \<Rightarrow> (Inr (pending s), w1))"

subsection \<open>Integers of the program\<close>

text \<open>
  Go's \<open>int\<close> is taken as 64 bits wide: a product wraps around in two's complement, and
  \<open>/\<close> truncates towards zero. \<open>byte(x)\<close> keeps the low 8 bits.
\<close>

definition int64_wrap :: "int \<Rightarrow> int" where
  "int64_wrap x = (x + 2 ^ 63) mod 2 ^ 64 - 2 ^ 63"

definition go_quot :: "int \<Rightarrow> int \<Rightarrow> int" where
  "go_quot a b = sgn a * sgn b * (\<bar>a\<bar> div \<bar>b\<bar>)"

definition byte_of_int :: "int \<Rightarrow> byte" where
  "byte_of_int x = word_of_int x"

text \<open>\<open>minSize := int64(1000000 * *romsizeMbits / 8)\<close>.\<close>

definition minSize :: "int \<Rightarrow> int" where
  "minSize romsizeMbits = go_quot (int64_wrap (1000000 * romsizeMbits)) 8"

subsection \<open>The program\<close>

text \<open>The command line after \<open>flag.Parse()\<close>: the positional arguments and the flags that \<open>mainE\<close> reads.\<close>

record flags =
  positional :: "string list"
  verbose :: bool
  romsizeMbits :: int
  filldata :: int
  romImageFile :: string
  defineFlags :: "string list"
  includeFlags :: "string list"
  undefineFlags :: "string list"
  toolchainPrefix :: string
  ldCommand :: string
  asCommand :: string
  cppCommand :: string
  objcopyCommand :: string

definition getCommand :: "flags \<Rightarrow> string \<Rightarrow> string \<Rightarrow> string" where
  "getCommand fl flag def = (if flag \<noteq> [] then flag else toolchainPrefix fl @ def)"

text \<open>\<open>fmt.Errorf(prefix + ": %v", err)\<close>.\<close>

definition errorf :: "string \<Rightarrow> error \<Rightarrow> error" where
  "errorf prefix err = ErrorString (prefix @ '': '' @ error_Error err)"

text \<open>
  The loop over \<open>seg.Includes\<close>. What \<open>CreateRawObjectWrapper\<close> returns is not assigned:
  only a panic of it ends the loop.
\<close>

fun wrap_includes :: "env \<Rightarrow> ext \<Rightarrow> runner \<Rightarrow> string list \<Rightarrow> world \<Rightarrow> unit outcome \<times> world" where
  "wrap_includes env ext ld [] w = (Ok (), w)"
| "wrap_includes env ext ld (include # rest) w =
     (case os_Open env include w of
        (Inl err, w1) \<Rightarrow> (Err (errorf ''could not open include'' err), w1)
      | (Inr f, w1) \<Rightarrow>
          (case CreateRawObjectWrapper ext f (include @ ''.o'') ld w1 of
             (Panic p, w2) \<Rightarrow> (Panic p, w2)
           | (Err unused, w2) \<Rightarrow> wrap_includes env ext ld rest w2
           | (Ok unused, w2) \<Rightarrow> wrap_includes env ext ld rest w2))"

text \<open>The loop over \<open>w.RawSegments\<close>.\<close>

fun wrap_segments :: "env \<Rightarrow> ext \<Rightarrow> runner \<Rightarrow> raw_segment list \<Rightarrow> world \<Rightarrow> unit outcome \<times> world" where
  "wrap_segments env ext ld [] w = (Ok (), w)"
| "wrap_segments env ext ld (seg # rest) w =
     (case wrap_includes env ext ld (Includes seg) w of
        (Ok u, w1) \<Rightarrow> wrap_segments env ext ld rest w1
      | (Err err, w1) \<Rightarrow> (Err err, w1)
      | (Panic p, w1) \<Rightarrow> (Panic p, w1))"

text \<open>
  The body of the loop over \<open>spec.Waves\<close> up to \<open>ioutil.ReadAll\<close>: the wave's
  \<open>binarizedObjectBytes\<close>. The runners \<open>ld\<close>, \<open>as\<close> and \<open>objcopy\<close> of \<open>mainE\<close> are
  the parameters \<open>ld\<close>, \<open>asm\<close> and \<open>objcopy\<close>.
\<close>

definition build_wave :: "env \<Rightarrow> ext \<Rightarrow> runner \<Rightarrow> runner \<Rightarrow> runner \<Rightarrow> wave \<Rightarrow> world
    \<Rightarrow> byte list outcome \<times> world" where
  "build_wave env ext ld asm objcopy wv w =
     (case wrap_segments env ext ld (RawSegments wv) w of
        (Panic p, w1) \<Rightarrow> (Panic p, w1)
      | (Err err, w1) \<Rightarrow> (Err err, w1)
      | (Ok u, w1) \<Rightarrow>
          (case CreateEntryBinary ext wv asm w1 of
             (Panic p, w2) \<Rightarrow> (Panic p, w2)
           | (Err err, w2) \<Rightarrow> (Err (errorf ''spicy.CreateEntryBinary'' err), w2)
           | (Ok entry, w2) \<Rightarrow>
               (case LinkSpec ext wv ld entry w2 of
                  (Panic p, w3) \<Rightarrow> (Panic p, w3)
                | (Err err, w3) \<Rightarrow> (Err (errorf ''spicy.LinkSpec'' err), w3)
                | (Ok linkedObject, w3) \<Rightarrow>
                    (case BinarizeObject ext linkedObject objcopy w3 of
                       (Panic p, w4) \<Rightarrow> (Panic p, w4)
                     | (Err err, w4) \<Rightarrow> (Err (errorf ''spicy.BinarizeObject'' err), w4)
                     | (Ok binarizedObject, w4) \<Rightarrow>
                         (case ioutil_ReadAll binarizedObject w4 of
                            (Inl err, w5) \<Rightarrow> (Err (errorf ''could not read binarized object'' err), w5)
                          | (Inr binarizedObjectBytes, w5) \<Rightarrow> (Ok binarizedObjectBytes, w5))))))"

text \<open>
  The loop over \<open>spec.Waves\<close>. After \<open>ioutil.ReadAll\<close> succeeded \<open>err\<close> is nil; the
  statement \<open>rom.WriteAt(binarizedObjectBytes, n64rom.CodeStart)\<close> assigns nothing, so the
  \<open>if err != nil\<close> that follows it still tests that nil.
\<close>

fun run_waves :: "env \<Rightarrow> ext \<Rightarrow> runner \<Rightarrow> runner \<Rightarrow> runner \<Rightarrow> wave list \<Rightarrow> rom_file \<Rightarrow> world
    \<Rightarrow> rom_file outcome \<times> world" where
  "run_waves env ext ld asm objcopy [] rom w = (Ok rom, w)"
| "run_waves env ext ld asm objcopy (wv # rest) rom w =
     (case build_wave env ext ld asm objcopy wv w of
        (Panic p, w1) \<Rightarrow> (Panic p, w1)
      | (Err e, w1) \<Rightarrow> (Err e, w1)
      | (Ok binarizedObjectBytes, w1) \<Rightarrow>
          (let err = (None :: error option);
               (unused, rom1) = rom_WriteAt ext rom binarizedObjectBytes (CodeStart ext)
           in case err of
                Some e \<Rightarrow> (Err (errorf ''could not write ROM'' e), w1)
              | None \<Rightarrow> run_waves env ext ld asm objcopy rest rom1 w1))"

text \<open>The block \<open>if *romsizeMbits > 0 { ... }\<close>: the error of \<open>out.WriteAt\<close>, if it is reached.\<close>

definition pad_output :: "ext \<Rightarrow> int \<Rightarrow> string \<Rightarrow> world \<Rightarrow> error option \<times> world" where
  "pad_output ext romsize out w =
     (if romsize > 0 then file_WriteAt ext out [0] (minSize romsize) w else (None, w))"

text \<open>\<open>mainE\<close> from \<open>os.Create\<close> to its end.\<close>

definition finalize :: "env \<Rightarrow> ext \<Rightarrow> flags \<Rightarrow> rom_file \<Rightarrow> world \<Rightarrow> unit outcome \<times> world" where
  "finalize env ext fl rom w =
     (case os_Create ext (romImageFile fl) w of
        (Inl err, w1) \<Rightarrow> (Err (errorf ''could not create ROM'' err), w1)
      | (Inr out, w1) \<Rightarrow>
          (case pad_output ext (romsizeMbits fl) out w1 of
             (Some err, w2) \<Rightarrow> (Err err, w2)
           | (None, w2) \<Rightarrow>
               (case rom_Save ext rom out w2 of
                  (Some err, w3) \<Rightarrow> (Err (errorf ''could not write ROM'' err), w3)
                | (None, w3) \<Rightarrow>
                    (case file_Close env out w3 of
                       (Some err, w4) \<Rightarrow> (Err err, w4)
                     | (None, w4) \<Rightarrow> (Ok (), w4)))))"

text \<open>\<open>mainE\<close> between \<open>defer f.Close()\<close> and \<open>os.Create\<close>, followed by the rest.\<close>

definition mainE_body :: "env \<Rightarrow> ext \<Rightarrow> flags \<Rightarrow> reader \<Rightarrow> world \<Rightarrow> unit outcome \<times> world" where
  "mainE_body env ext fl f w =
     (let gcc = ExecRunner_Run env (getCommand fl (cppCommand fl) ''gcc'');
          ld = ExecRunner_Run env (getCommand fl (ldCommand fl) ''ld'');
          asm = ExecRunner_Run env (getCommand fl (asCommand fl) ''as'');
          objcopy = ExecRunner_Run env (getCommand fl (objcopyCommand fl) ''objcopy'')
      in case PreprocessSpec ext f gcc (includeFlags fl) (defineFlags fl) (undefineFlags fl) w of
           (Panic p, w1) \<Rightarrow> (Panic p, w1)
         | (Err err, w1) \<Rightarrow> (Err (errorf ''could not preprocess spec'' err), w1)
         | (Ok preprocessed, w1) \<Rightarrow>
             (case ParseSpec ext preprocessed w1 of
                (Panic p, w2) \<Rightarrow> (Panic p, w2)
              | (Err err, w2) \<Rightarrow> (Err (errorf ''could not parse spec'' err), w2)
              | (Ok spec, w2) \<Rightarrow>
                  (case NewBlankRomFile ext (byte_of_int (filldata fl)) of
                     Inl err \<Rightarrow> (Err (errorf ''n64rom.NewBlankRomFile'' err), w2)
                   | Inr rom \<Rightarrow>
                       (case run_waves env ext ld asm objcopy (Waves spec) rom w2 of
                          (Panic p, w3) \<Rightarrow> (Panic p, w3)
                        | (Err err, w3) \<Rightarrow> (Err err, w3)
                        | (Ok rom1, w3) \<Rightarrow> finalize env ext fl rom1 w3))))"

text \<open>
  \<open>mainE\<close>. The deferred \<open>f.Close()\<close> runs on every way out of the function once the
  spec file is open; its error is dropped.
\<close>

definition mainE :: "env \<Rightarrow> ext \<Rightarrow> flags \<Rightarrow> world \<Rightarrow> unit outcome \<times> world" where
  "mainE env ext fl w =
     (if length (positional fl) \<noteq> 1 then
        (if length (positional fl) = 0 then (Err (ErrorString ''missing argument: <spec>''), w)
         else (Err (ErrorString (''invalid usage: got '' @ decimal (length (positional fl))
                  @ '' arguments, expected exactly 1'')), w))
      else
        (let w0 = w\<lparr>log_level := (if verbose fl then DebugLevel else WarnLevel)\<rparr> in
         case os_Open env (positional fl ! 0) w0 of
           (Inl err, w1) \<Rightarrow> (Err (errorf ''could not open spec'' err), w1)
         | (Inr f, w1) \<Rightarrow>
             (let (res, w2) = mainE_body env ext fl f w1
              in (res, snd (file_Close env (positional fl ! 0) w2)))))"

section \<open>Notions of the specification\<close>

text \<open>The files a run created: those of the later world that the earlier one did not hold.\<close>

definition temp_files_created :: "world \<Rightarrow> world \<Rightarrow> string set" where
  "temp_files_created w w' = dom (files w') - dom (files w)"

text \<open>
  The generic I/O error of the operating system's file calls is an \<open>*os.PathError\<close>.
\<close>

definition is_generic_io_error :: "error \<Rightarrow> bool" where
  "is_generic_io_error e =
     (case e of PathError opn path cause \<Rightarrow> True | ExitError st \<Rightarrow> False
      | ErrorString msg \<Rightarrow> False)"

section \<open>Inputs for the examples\<close>

text \<open>
  An environment in which no call fails: the n-th temporary file for a pattern is
  \<open>/tmp/<pattern><n>\<close>, which is already absolute, and every program copies its
  standard input to its standard output and exits with status 0.
\<close>

definition env0 :: env where
  "env0 = \<lparr>tempfile_name = (\<lambda>n pattern. ''/tmp/'' @ pattern @ decimal n),
           tempfile_fault = (\<lambda>n pattern. None),
           abs_path = (\<lambda>name. Inr name),
           write_fault = (\<lambda>name data. None),
           close_fault = (\<lambda>name. None),
           open_fault = (\<lambda>name. None),
           read_fault = (\<lambda>name. None),
           shellquote_Command = (\<lambda>ws. Inr (concat (map (\<lambda>x. x @ '' '') ws))),
           spawn = (\<lambda>command args input fs.
             \<lparr>pr_exit = Ended (ExitStatus 0), pr_stdout = input, pr_stderr = [],
              pr_files = fs\<rparr>)\<rparr>"

text \<open>An empty file system and one stream, reader 0, holding three bytes.\<close>

definition world0 :: world where
  "world0 = \<lparr>files = Map.empty, handles = [],
             streams = (\<lambda>r. \<lparr>pending = [], fault = None\<rparr>)(0 := \<lparr>pending = [1, 2, 3], fault = None\<rparr>),
             next_reader = 1, tmp_seq = 0, log_level = InfoLevel, log_lines = []\<rparr>"

text \<open>The mapping \<open>{"in": reader 0}\<close>.\<close>

definition inputs0 :: "string \<rightharpoonup> reader" where
  "inputs0 = [''in'' \<mapsto> 0]"

text \<open>A world whose reader 0 yields its three bytes and then fails.\<close>

definition world_bad_reader :: world where
  "world_bad_reader =
     world0\<lparr>streams := (streams world0)(0 := \<lparr>pending = [1, 2, 3], fault = Some (ErrorString ''read failed'')\<rparr>)\<rparr>"



text \<open>
  A build of two units: \<open>first\<close> has one raw segment that includes \<open>data.bin\<close>, and its
  entry binary is the bytes 1, 2, 3; \<open>second\<close> has no raw segment, and its entry binary
  is 9, 9. The tools are run through the runners they are given, the code-start offset
  is 4, a blank image has 8 bytes, and no call fails.
\<close>

definition wave_first :: wave where
  "wave_first = \<lparr>Name = ''first'', RawSegments = [\<lparr>Includes = [''data.bin'']\<rparr>]\<rparr>"

definition wave_second :: wave where
  "wave_second = \<lparr>Name = ''second'', RawSegments = []\<rparr>"

definition ext0 :: ext where
  "ext0 = \<lparr>PreprocessSpec = (\<lambda>f gcc includes defines undefines.
              gcc f (''-E'' # includes @ defines @ undefines)),
           ParseSpec = (\<lambda>preprocessed w. (Ok \<lparr>Waves = [wave_first, wave_second]\<rparr>, w)),
           CreateRawObjectWrapper = (\<lambda>f outputName ld. ld f [''-r'', ''-o'', outputName]),
           CreateEntryBinary = (\<lambda>wv asm w.
              (let (rd, w1) = new_reader
                     \<lparr>pending = (if Name wv = ''first'' then [1, 2, 3] else [9, 9]), fault = None\<rparr> w
               in (Ok rd, w1))),
           LinkSpec = (\<lambda>wv ld entry. ld entry [''-o'', ''linked.o'']),
           BinarizeObject = (\<lambda>linkedObject objcopy. objcopy linkedObject [''-O'', ''binary'']),
           CodeStart = 4,
           blank_size = 8,
           newrom_fault = (\<lambda>fill. None),
           rom_write_fault = (\<lambda>p off. None),
           rom_save_fault = (\<lambda>name. None),
           create_fault = (\<lambda>name. None),
           writeat_fault = (\<lambda>name off. None)\<rparr>"

text \<open>The same build when every write into the ROM image fails, and when wrapping a raw object fails.\<close>

definition ext_write_fails :: ext where
  "ext_write_fails = ext0\<lparr>rom_write_fault := (\<lambda>p off. Some (ErrorString ''offset out of range''))\<rparr>"

definition ext_wrap_fails :: ext where
  "ext_wrap_fails =
     ext0\<lparr>CreateRawObjectWrapper := (\<lambda>f outputName ld w. (Err (ErrorString ''ld failed''), w))\<rparr>"

text \<open>The command line \<open>spicy spec\<close>, every flag at its default.\<close>

definition flags0 :: flags where
  "flags0 = \<lparr>positional = [''spec''], verbose = False, romsizeMbits = - 1, filldata = 0,
             romImageFile = ''rom.n64'', defineFlags = [], includeFlags = [], undefineFlags = [],
             toolchainPrefix = ''mips64-elf-'', ldCommand = [], asCommand = [], cppCommand = [],
             objcopyCommand = []\<rparr>"

text \<open>A file system that holds the spec file and the included file.\<close>

definition world_main :: world where
  "world_main = world0\<lparr>files := [''spec'' \<mapsto> [115], ''data.bin'' \<mapsto> [7]]\<rparr>"

text \<open>The same build when the linker step fails for every unit.\<close>

definition ext_link_fails :: ext where
  "ext_link_fails =
     ext0\<lparr>LinkSpec := (\<lambda>wv ld entry w. (Err (ErrorString ''undefined symbol''), w))\<rparr>"

section \<open>Properties of run.go\<close>

lemma decimal_digit: "n < 10 \<Longrightarrow> decimal n = [''0123456789'' ! n]"
  by (simp add: decimal.simps)

lemmas run_defs = writeTempFile_def ioutil_TempFile_def io_Copy_def file_Close_def logf_def
  Let_def file_contents_def filepath_Abs_def

lemmas example_defs = env0_def world0_def inputs0_def decimal_digit

subsection \<open>The temp-file stager\<close>

lemma writeTempFile_Ok:
  assumes "writeTempFile env r prefix w = (Ok path, w')"
  shows "files w (tempfile_name env (tmp_seq w) prefix) = None
       \<and> files w' = (files w)(tempfile_name env (tmp_seq w) prefix \<mapsto> pending (streams w r))
       \<and> filepath_Abs env (tempfile_name env (tmp_seq w) prefix) = Inr path
       \<and> handles w' = handles w \<and> tmp_seq w' = Suc (tmp_seq w)"
  using assms
  by (auto simp: run_defs split: option.splits sum.splits prod.splits if_splits)

lemma writeTempFile_no_Panic: "writeTempFile env r prefix w \<noteq> (Panic p, w')"
  by (auto simp: run_defs split: option.splits sum.splits prod.splits if_splits)

text \<open>
  A successful call of \<open>writeTempFile\<close> has created one file that did not exist, holding
  exactly the bytes the reader had left, has consumed the reader, holds no file open
  that was not open before, and returns what \<open>filepath.Abs\<close> gave for the file's name.
\<close>

theorem writeTempFile_stages_stream:
  assumes "writeTempFile env r prefix w = (Ok path, w')"
  shows "\<exists>name. files w name = None
           \<and> files w' = (files w)(name \<mapsto> pending (streams w r))
           \<and> filepath_Abs env name = Inr path
           \<and> handles w' = handles w
           \<and> pending (streams w' r) = []"
  using assms
  by (auto simp: run_defs split: option.splits sum.splits prod.splits if_splits)

theorem writeTempFile_stages_stream_witness:
  "fst (writeTempFile env0 0 ''in'' world0) = Ok ''/tmp/in0''
   \<and> (\<exists>name. files world0 name = None
         \<and> files (snd (writeTempFile env0 0 ''in'' world0)) = (files world0)(name \<mapsto> [1, 2, 3])
         \<and> filepath_Abs env0 name = Inr ''/tmp/in0''
         \<and> handles (snd (writeTempFile env0 0 ''in'' world0)) = handles world0
         \<and> pending (streams (snd (writeTempFile env0 0 ''in'' world0)) 0) = [])"
proof -
  have a: "fst (writeTempFile env0 0 ''in'' world0) = Ok ''/tmp/in0''"
    by (simp add: run_defs example_defs)
  then have a': "writeTempFile env0 0 ''in'' world0 = (Ok ''/tmp/in0'', snd (writeTempFile env0 0 ''in'' world0))"
    by (metis prod.collapse)
  have p: "pending (streams world0 0) = [1, 2, 3]"
    by (simp add: world0_def)
  show ?thesis
    using writeTempFile_stages_stream [OF a'] a unfolding p by blast
qed

subsection \<open>The substitution runner's loop\<close>

lemma stage_args_files_mono:
  "stage_args env m args w = (Ok newArgs, w') \<Longrightarrow> files w name \<noteq> None \<Longrightarrow> files w' name \<noteq> None"
proof (induction args arbitrary: w newArgs w')
  case Nil
  then show ?case by simp
next
  case (Cons a rest)
  show ?case
  proof (cases "m a")
    case None
    with Cons.prems(1) obtain n2 where "stage_args env m rest w = (Ok n2, w')"
      by (auto split: prod.splits outcome.splits)
    with Cons.IH Cons.prems(2) show ?thesis by blast
  next
    case (Some rd)
    with Cons.prems(1) obtain t w1 n2 where
      t: "writeTempFile env rd a w = (Ok t, w1)" and r: "stage_args env m rest w1 = (Ok n2, w')"
      by (auto split: prod.splits outcome.splits)
    from writeTempFile_Ok [OF t] Cons.prems(2) have "files w1 name \<noteq> None" by auto
    with Cons.IH r show ?thesis by blast
  qed
qed

lemma stage_args_length:
  "stage_args env m args w = (Ok newArgs, w') \<Longrightarrow> length newArgs = length args"
proof (induction args arbitrary: w newArgs w')
  case Nil
  then show ?case by simp
next
  case (Cons a rest)
  then show ?case
    by (fastforce split: option.splits prod.splits outcome.splits)
qed

lemma stage_args_nth:
  "stage_args env m args w = (Ok newArgs, w') \<Longrightarrow> i < length args \<Longrightarrow>
     (case m (args ! i) of
        None \<Rightarrow> newArgs ! i = args ! i
      | Some rd \<Rightarrow> (\<exists>name. files w name = None \<and> files w' name \<noteq> None
                       \<and> filepath_Abs env name = Inr (newArgs ! i)))"
proof (induction args arbitrary: w newArgs w' i)
  case Nil
  then show ?case by simp
next
  case (Cons a rest)
  show ?case
  proof (cases "m a")
    case None
    with Cons.prems(1) obtain n2 where r: "stage_args env m rest w = (Ok n2, w')"
      and n: "newArgs = a # n2"
      by (auto split: prod.splits outcome.splits)
    show ?thesis
    proof (cases i)
      case 0
      with None n show ?thesis by simp
    next
      case (Suc j)
      with Cons.prems(2) have "j < length rest" by simp
      from Cons.IH [OF r this] Suc n show ?thesis by (auto split: option.splits)
    qed
  next
    case (Some rd)
    with Cons.prems(1) obtain t w1 n2 where
      t: "writeTempFile env rd a w = (Ok t, w1)" and r: "stage_args env m rest w1 = (Ok n2, w')"
      and n: "newArgs = t # n2"
      by (auto split: prod.splits outcome.splits)
    note wt = writeTempFile_Ok [OF t]
    show ?thesis
    proof (cases i)
      case 0
      from wt have "files w1 (tempfile_name env (tmp_seq w) a) \<noteq> None" by simp
      from stage_args_files_mono [OF r this] wt 0 Some n show ?thesis by auto
    next
      case (Suc j)
      with Cons.prems(2) have j: "j < length rest" by simp
      have "files w name = None" if "files w1 name = None" for name
        using that wt by (auto split: if_splits)
      with Cons.IH [OF r j] Suc n show ?thesis
        by (auto split: option.splits)
    qed
  qed
qed

lemma writeTempFile_Ok_streams:
  assumes "writeTempFile env r prefix w = (Ok path, w')"
  shows "streams w' = (streams w)(r := (streams w r)\<lparr>pending := []\<rparr>)"
  using assms
  by (auto simp: run_defs split: option.splits sum.splits prod.splits if_splits)

lemma stage_args_ConsE:
  assumes "stage_args env m (a # rest) w = (Ok newArgs, w')"
  obtains (unmapped) n2 where "m a = None" "stage_args env m rest w = (Ok n2, w')" "newArgs = a # n2"
  | (mapped) rd t w1 n2 where "m a = Some rd" "writeTempFile env rd a w = (Ok t, w1)"
      "stage_args env m rest w1 = (Ok n2, w')" "newArgs = t # n2"
  using assms by (auto split: option.splits prod.splits outcome.splits)

lemma stage_args_files_keep:
  "stage_args env m args w = (Ok newArgs, w') \<Longrightarrow> files w name = Some c \<Longrightarrow> files w' name = Some c"
proof (induction args arbitrary: w newArgs w')
  case Nil
  then show ?case by simp
next
  case (Cons a rest)
  from Cons.prems(1) show ?case
  proof (cases rule: stage_args_ConsE)
    case (unmapped n2)
    with Cons.IH Cons.prems(2) show ?thesis by blast
  next
    case (mapped rd t w1 n2)
    from writeTempFile_Ok [OF mapped(2)] Cons.prems(2) have "files w1 name = Some c" by auto
    with Cons.IH mapped(3) show ?thesis by blast
  qed
qed

lemma stage_args_handles:
  "stage_args env m args w = (Ok newArgs, w') \<Longrightarrow> handles w' = handles w"
proof (induction args arbitrary: w newArgs w')
  case Nil
  then show ?case by simp
next
  case (Cons a rest)
  from Cons.prems(1) show ?case
  proof (cases rule: stage_args_ConsE)
    case (unmapped n2)
    with Cons.IH show ?thesis by blast
  next
    case (mapped rd t w1 n2)
    from writeTempFile_Ok [OF mapped(2)] have "handles w1 = handles w" by simp
    with Cons.IH [OF mapped(3)] show ?thesis by simp
  qed
qed

lemma stage_args_drained:
  "stage_args env m args w = (Ok newArgs, w') \<Longrightarrow> pending (streams w r) = [] \<Longrightarrow>
     pending (streams w' r) = []"
proof (induction args arbitrary: w newArgs w')
  case Nil
  then show ?case by simp
next
  case (Cons a rest)
  from Cons.prems(1) show ?case
  proof (cases rule: stage_args_ConsE)
    case (unmapped n2)
    with Cons.IH Cons.prems(2) show ?thesis by blast
  next
    case (mapped rd t w1 n2)
    from writeTempFile_Ok_streams [OF mapped(2)] Cons.prems(2)
    have "pending (streams w1 r) = []" by simp
    with Cons.IH mapped(3) show ?thesis by blast
  qed
qed

lemma stage_args_streams_other:
  "stage_args env m args w = (Ok newArgs, w') \<Longrightarrow> \<forall>a\<in>set args. m a \<noteq> Some r \<Longrightarrow>
     streams w' r = streams w r"
proof (induction args arbitrary: w newArgs w')
  case Nil
  then show ?case by simp
next
  case (Cons a rest)
  from Cons.prems(1) show ?case
  proof (cases rule: stage_args_ConsE)
    case (unmapped n2)
    with Cons.IH Cons.prems(2) show ?thesis by simp
  next
    case (mapped rd t w1 n2)
    from mapped(1) Cons.prems(2) have "rd \<noteq> r" by auto
    with writeTempFile_Ok_streams [OF mapped(2)] have "streams w1 r = streams w r" by simp
    moreover from Cons.IH [OF mapped(3)] Cons.prems(2) have "streams w' r = streams w1 r" by simp
    ultimately show ?thesis by simp
  qed
qed

lemma stage_args_append:
  "stage_args env m (xs @ ys) w =
     (case stage_args env m xs w of
        (Ok n1, w1) \<Rightarrow>
          (case stage_args env m ys w1 of
             (Ok n2, w2) \<Rightarrow> (Ok (n1 @ n2), w2)
           | (Err err, w2) \<Rightarrow> (Err err, w2)
           | (Panic p, w2) \<Rightarrow> (Panic p, w2))
      | (Err err, w1) \<Rightarrow> (Err err, w1)
      | (Panic p, w1) \<Rightarrow> (Panic p, w1))"
proof (induction xs arbitrary: w)
  case Nil
  show ?case by (simp split: prod.splits outcome.splits)
next
  case (Cons a xs)
  show ?case
    by (simp add: Cons.IH split: option.splits prod.splits outcome.splits)
qed

lemma stage_args_at:
  assumes ok: "stage_args env m args w = (Ok newArgs, w')"
    and i: "i < length args" and key: "m (args ! i) = Some rd"
  shows "\<exists>name staged wi.
           stage_args env m (take i args) w = (Ok staged, wi)
         \<and> files w name = None \<and> files wi name = None
         \<and> files w' name = Some (pending (streams wi rd))
         \<and> ((\<forall>j<i. m (args ! j) \<noteq> Some rd) \<longrightarrow> files w' name = Some (pending (streams w rd)))
         \<and> pending (streams w' rd) = []
         \<and> filepath_Abs env name = Inr (newArgs ! i)"
proof -
  have split: "args = take i args @ args ! i # drop (Suc i) args"
    using i by (simp add: id_take_nth_drop)
  from ok have "stage_args env m (take i args @ args ! i # drop (Suc i) args) w = (Ok newArgs, w')"
    using split by simp
  then obtain staged wi n2 where
    pre: "stage_args env m (take i args) w = (Ok staged, wi)"
    and rest: "stage_args env m (args ! i # drop (Suc i) args) wi = (Ok n2, w')"
    and new: "newArgs = staged @ n2"
    unfolding stage_args_append by (auto split: prod.splits outcome.splits)
  from rest key obtain t w1 n3 where
    wt: "writeTempFile env rd (args ! i) wi = (Ok t, w1)"
    and r3: "stage_args env m (drop (Suc i) args) w1 = (Ok n3, w')"
    and n2: "n2 = t # n3"
    by (cases rule: stage_args_ConsE) auto
  define name where "name = tempfile_name env (tmp_seq wi) (args ! i)"
  from writeTempFile_Ok [OF wt] have fresh: "files wi name = None"
    and made: "files w1 name = Some (pending (streams wi rd))"
    and abs: "filepath_Abs env name = Inr t"
    by (simp_all add: name_def)
  from stage_args_length [OF pre] i have len: "length staged = i" by simp
  with new n2 have nth: "newArgs ! i = t" by (simp add: nth_append)
  have fresh0: "files w name = None"
  proof (rule ccontr)
    assume "files w name \<noteq> None"
    from stage_args_files_mono [OF pre this] fresh show False by simp
  qed
  from stage_args_files_keep [OF r3 made] have kept: "files w' name = Some (pending (streams wi rd))" .
  from writeTempFile_Ok_streams [OF wt] have "pending (streams w1 rd) = []" by simp
  from stage_args_drained [OF r3 this] have drained: "pending (streams w' rd) = []" .
  have first: "files w' name = Some (pending (streams w rd))" if "\<forall>j<i. m (args ! j) \<noteq> Some rd"
  proof -
    have "\<forall>a\<in>set (take i args). m a \<noteq> Some rd"
      using that i by (auto simp: in_set_conv_nth)
    from stage_args_streams_other [OF pre this] kept show ?thesis by simp
  qed
  from pre fresh0 fresh kept first drained abs nth show ?thesis by auto
qed

text \<open>
  C1. Whenever the loop of \<open>MappedFileRunner.Run\<close> completes, the list \<open>newArgs\<close> it has
  built has the length of \<open>args\<close>, and no file is held open that was not open before.
  At every position, a token that is no key of \<open>inputFileArgs\<close> stands unchanged. A token
  that is a key, mapped to the reader \<open>rd\<close>, is replaced by what \<open>filepath.Abs\<close> returned
  for the name of its temp file: a file that existed neither before the run nor when the
  loop reached the position, and that after the run holds exactly the bytes the reader
  had left when the loop reached the position (the bytes the reader had at the start of
  the run, if no earlier token is mapped to the same reader); the reader is consumed.
  \<open>Run\<close> then calls the inner runner with exactly \<open>newArgs\<close> and the caller's reader.
\<close>

theorem MappedFileRunner_rewrites_args:
  assumes "stage_args env inputFileArgs args w = (Ok newArgs, w')"
  shows "length newArgs = length args
    \<and> handles w' = handles w
    \<and> (\<forall>i<length args.
          (inputFileArgs (args ! i) = None \<longrightarrow> newArgs ! i = args ! i)
        \<and> (\<forall>rd. inputFileArgs (args ! i) = Some rd \<longrightarrow>
             (\<exists>name staged wi.
                  stage_args env inputFileArgs (take i args) w = (Ok staged, wi)
                \<and> files w name = None \<and> files wi name = None
                \<and> files w' name = Some (pending (streams wi rd))
                \<and> ((\<forall>j<i. inputFileArgs (args ! j) \<noteq> Some rd) \<longrightarrow>
                      files w' name = Some (pending (streams w rd)))
                \<and> pending (streams w' rd) = []
                \<and> filepath_Abs env name = Inr (newArgs ! i))))
    \<and> MappedFileRunner_Run env inner inputFileArgs outputFileArg r args w =
        (case inner r newArgs w' of
           (Panic p, w2) \<Rightarrow> (Panic p, w2)
         | (Err err, w2) \<Rightarrow> (Err err, w2)
         | (Ok unused, w2) \<Rightarrow>
             (case ioutil_ReadFile env outputFileArg w2 of
                Inl err \<Rightarrow> (Err err, w2)
              | Inr b \<Rightarrow>
                  (let (rd, w3) = new_reader \<lparr>pending = b, fault = None\<rparr> w2
                   in (Ok rd, w3))))"
proof (intro conjI allI impI)
  show "length newArgs = length args"
    using assms by (rule stage_args_length)
next
  show "handles w' = handles w"
    using assms by (rule stage_args_handles)
next
  fix i assume "i < length args" and "inputFileArgs (args ! i) = None"
  with stage_args_nth [OF assms, of i] show "newArgs ! i = args ! i" by simp
next
  fix i rd assume "i < length args" and "inputFileArgs (args ! i) = Some rd"
  then show "\<exists>name staged wi.
                  stage_args env inputFileArgs (take i args) w = (Ok staged, wi)
                \<and> files w name = None \<and> files wi name = None
                \<and> files w' name = Some (pending (streams wi rd))
                \<and> ((\<forall>j<i. inputFileArgs (args ! j) \<noteq> Some rd) \<longrightarrow>
                      files w' name = Some (pending (streams w rd)))
                \<and> pending (streams w' rd) = []
                \<and> filepath_Abs env name = Inr (newArgs ! i)"
    by (rule stage_args_at [OF assms])
next
  show "MappedFileRunner_Run env inner inputFileArgs outputFileArg r args w =
        (case inner r newArgs w' of
           (Panic p, w2) \<Rightarrow> (Panic p, w2)
         | (Err err, w2) \<Rightarrow> (Err err, w2)
         | (Ok unused, w2) \<Rightarrow>
             (case ioutil_ReadFile env outputFileArg w2 of
                Inl err \<Rightarrow> (Err err, w2)
              | Inr b \<Rightarrow>
                  (let (rd, w3) = new_reader \<lparr>pending = b, fault = None\<rparr> w2
                   in (Ok rd, w3))))"
    by (simp add: MappedFileRunner_Run_def assms)
qed

theorem MappedFileRunner_rewrites_args_witness:
  "stage_args env0 inputs0 [''-T'', ''in'', ''-T''] world0
      = (Ok [''-T'', ''/tmp/in0'', ''-T''], snd (stage_args env0 inputs0 [''-T'', ''in'', ''-T''] world0))
   \<and> length [''-T'', ''/tmp/in0'', ''-T''] = length [''-T'', ''in'', ''-T'']
   \<and> handles (snd (stage_args env0 inputs0 [''-T'', ''in'', ''-T''] world0)) = handles world0
   \<and> [''-T'', ''/tmp/in0'', ''-T''] ! 0 = [''-T'', ''in'', ''-T''] ! 0
   \<and> [''-T'', ''/tmp/in0'', ''-T''] ! 2 = [''-T'', ''in'', ''-T''] ! 2
   \<and> inputs0 ([''-T'', ''in'', ''-T''] ! 1) = Some 0
   \<and> (\<exists>name. files world0 name = None
         \<and> files (snd (stage_args env0 inputs0 [''-T'', ''in'', ''-T''] world0)) name
              = Some (pending (streams world0 0))
         \<and> pending (streams (snd (stage_args env0 inputs0 [''-T'', ''in'', ''-T''] world0)) 0) = []
         \<and> filepath_Abs env0 name = Inr ([''-T'', ''/tmp/in0'', ''-T''] ! 1))
   \<and> pending (streams world0 0) = [1, 2, 3]
   \<and> files (snd (stage_args env0 inputs0 [''-T'', ''in'', ''-T''] world0)) ''/tmp/in0'' = Some [1, 2, 3]"
proof -
  let ?args = "[''-T'', ''in'', ''-T'']"
  let ?new = "[''-T'', ''/tmp/in0'', ''-T'']"
  let ?w' = "snd (stage_args env0 inputs0 ?args world0)"
  have "fst (stage_args env0 inputs0 ?args world0) = Ok ?new"
    by (simp add: run_defs example_defs)
  then have h: "stage_args env0 inputs0 ?args world0 = (Ok ?new, ?w')"
    by (metis prod.collapse)
  note inst = MappedFileRunner_rewrites_args [OF h]
  have len: "length ?new = length ?args"
    using inst by (rule conjunct1)
  have hnd: "handles ?w' = handles world0"
    using inst by (rule conjunct1 [OF conjunct2])
  have pos: "\<forall>i<length ?args.
          (inputs0 (?args ! i) = None \<longrightarrow> ?new ! i = ?args ! i)
        \<and> (\<forall>rd. inputs0 (?args ! i) = Some rd \<longrightarrow>
             (\<exists>name staged wi.
                  stage_args env0 inputs0 (take i ?args) world0 = (Ok staged, wi)
                \<and> files world0 name = None \<and> files wi name = None
                \<and> files ?w' name = Some (pending (streams wi rd))
                \<and> ((\<forall>j<i. inputs0 (?args ! j) \<noteq> Some rd) \<longrightarrow>
                      files ?w' name = Some (pending (streams world0 rd)))
                \<and> pending (streams ?w' rd) = []
                \<and> filepath_Abs env0 name = Inr (?new ! i)))"
    using inst by (rule conjunct1 [OF conjunct2 [OF conjunct2]])
  have l0: "(0::nat) < length ?args" and l1: "(1::nat) < length ?args"
    and l2: "(2::nat) < length ?args" by simp_all
  have k0: "inputs0 (?args ! 0) = None" and k1: "inputs0 (?args ! 1) = Some 0"
    and k2: "inputs0 (?args ! 2) = None"
    by (simp_all add: inputs0_def)
  have first: "\<forall>j<1. inputs0 (?args ! j) \<noteq> Some 0"
    by (simp add: inputs0_def)
  note p0 = pos [rule_format, OF l0, THEN conjunct1, rule_format, OF k0]
  note p2 = pos [rule_format, OF l2, THEN conjunct1, rule_format, OF k2]
  from pos [rule_format, OF l1, THEN conjunct2, rule_format, OF k1] first
  have p1: "\<exists>name. files world0 name = None
         \<and> files ?w' name = Some (pending (streams world0 0))
         \<and> pending (streams ?w' 0) = []
         \<and> filepath_Abs env0 name = Inr (?new ! 1)"
    by blast
  have q: "pending (streams world0 0) = [1, 2, 3]"
    by (simp add: world0_def)
  have c: "files ?w' ''/tmp/in0'' = Some [1, 2, 3]"
    by (simp add: run_defs example_defs)
  show ?thesis
    by (rule conjI h len hnd p0 p2 k1 p1 q c)+
qed

lemma stage_args_created:
  "stage_args env m args w = (Ok newArgs, w') \<Longrightarrow>
     dom (files w) \<subseteq> dom (files w') \<and> finite (temp_files_created w w')
     \<and> card (temp_files_created w w') = length (filter (\<lambda>a. m a \<noteq> None) args)"
proof (induction args arbitrary: w newArgs w')
  case Nil
  then show ?case by (simp add: temp_files_created_def)
next
  case (Cons a rest)
  show ?case
  proof (cases "m a")
    case None
    with Cons.prems obtain n2 where "stage_args env m rest w = (Ok n2, w')"
      by (auto split: prod.splits outcome.splits)
    from Cons.IH [OF this] None show ?thesis by simp
  next
    case (Some rd)
    with Cons.prems obtain t w1 n2 where
      t: "writeTempFile env rd a w = (Ok t, w1)" and r: "stage_args env m rest w1 = (Ok n2, w')"
      by (auto split: prod.splits outcome.splits)
    define name where "name = tempfile_name env (tmp_seq w) a"
    from writeTempFile_Ok [OF t] have fresh: "name \<notin> dom (files w)"
      and d1: "dom (files w1) = insert name (dom (files w))"
      by (auto simp: name_def)
    from Cons.IH [OF r] have sub: "dom (files w1) \<subseteq> dom (files w')"
      and fin: "finite (temp_files_created w1 w')"
      and crd: "card (temp_files_created w1 w') = length (filter (\<lambda>a. m a \<noteq> None) rest)"
      by simp_all
    have eq: "temp_files_created w w' = insert name (temp_files_created w1 w')"
      using fresh d1 sub by (auto simp: temp_files_created_def)
    have notin: "name \<notin> temp_files_created w1 w'"
      using d1 by (simp add: temp_files_created_def)
    from eq notin fin crd Some sub d1 show ?thesis by auto
  qed
qed

text \<open>
  C9 as stated fails: with the one-entry mapping \<open>{"in": reader 0}\<close> and the argument
  list \<open>["in", "in"]\<close> the loop stages the one stream twice, into two temp files, the
  second one empty because the first staging consumed the reader.
\<close>

theorem staging_duplicate_key_counterexample:
  "dom inputs0 = {''in''}
   \<and> fst (stage_args env0 inputs0 [''in'', ''in''] world0) = Ok [''/tmp/in0'', ''/tmp/in1'']
   \<and> temp_files_created world0 (snd (stage_args env0 inputs0 [''in'', ''in''] world0))
       = {''/tmp/in0'', ''/tmp/in1''}
   \<and> card (temp_files_created world0 (snd (stage_args env0 inputs0 [''in'', ''in''] world0))) = 2
   \<and> files (snd (stage_args env0 inputs0 [''in'', ''in''] world0)) ''/tmp/in1'' = Some []"
proof -
  have f: "files (snd (stage_args env0 inputs0 [''in'', ''in''] world0))
             = [''/tmp/in0'' \<mapsto> [1,2,3], ''/tmp/in1'' \<mapsto> []]"
    by (simp add: run_defs example_defs)
  have t: "temp_files_created world0 (snd (stage_args env0 inputs0 [''in'', ''in''] world0))
             = {''/tmp/in0'', ''/tmp/in1''}"
    unfolding temp_files_created_def f by (auto simp: world0_def)
  have c: "card (temp_files_created world0 (snd (stage_args env0 inputs0 [''in'', ''in''] world0))) = 2"
    unfolding t by simp
  have l: "files (snd (stage_args env0 inputs0 [''in'', ''in''] world0)) ''/tmp/in1'' = Some []"
    unfolding f by simp
  have d: "dom inputs0 = {''in''}"
    by (simp add: inputs0_def)
  have r: "fst (stage_args env0 inputs0 [''in'', ''in''] world0) = Ok [''/tmp/in0'', ''/tmp/in1'']"
    by (simp add: run_defs example_defs)
  show ?thesis
    by (rule conjI d r t c l)+
qed

text \<open>
  C9, amended. A completed loop of \<open>MappedFileRunner.Run\<close> has created one temporary file
  for each occurrence in \<open>args\<close> of a token that is a key of \<open>inputFileArgs\<close>: a key that
  occurs twice is staged twice, and a key that does not occur is not staged.
\<close>

theorem staging_one_file_per_occurrence:
  assumes "stage_args env inputFileArgs args w = (Ok newArgs, w')"
  shows "card (temp_files_created w w')
           = length (filter (\<lambda>arg. inputFileArgs arg \<noteq> None) args)"
  using stage_args_created [OF assms] by simp

theorem staging_one_file_per_occurrence_witness:
  "stage_args env0 inputs0 [''in'', ''-o'', ''in''] world0
      = (Ok [''/tmp/in0'', ''-o'', ''/tmp/in1''], snd (stage_args env0 inputs0 [''in'', ''-o'', ''in''] world0))
   \<and> card (temp_files_created world0 (snd (stage_args env0 inputs0 [''in'', ''-o'', ''in''] world0))) = 2"
proof -
  have "fst (stage_args env0 inputs0 [''in'', ''-o'', ''in''] world0) = Ok [''/tmp/in0'', ''-o'', ''/tmp/in1'']"
    by (simp add: run_defs example_defs)
  then have h: "stage_args env0 inputs0 [''in'', ''-o'', ''in''] world0
      = (Ok [''/tmp/in0'', ''-o'', ''/tmp/in1''], snd (stage_args env0 inputs0 [''in'', ''-o'', ''in''] world0))"
    by (metis prod.collapse)
  have n: "length (filter (\<lambda>arg. inputs0 arg \<noteq> None) [''in'', ''-o'', ''in'']) = 2"
    by (simp add: inputs0_def)
  have c: "card (temp_files_created world0 (snd (stage_args env0 inputs0 [''in'', ''-o'', ''in''] world0))) = 2"
    using staging_one_file_per_occurrence [OF h] unfolding n .
  show ?thesis
    by (rule conjI h c)+
qed

text \<open>
  C10. When the loop of \<open>MappedFileRunner.Run\<close> has staged the tokens before some position
  and \<open>writeTempFile\<close> fails for the mapped token at that position, \<open>Run\<close> returns that
  error in the world the stager left. This holds for every inner runner and whatever
  tokens follow: the result has no contribution of a call of the inner runner.
\<close>

theorem staging_failure_skips_inner:
  assumes "stage_args env inputFileArgs pre w = (Ok staged, w1)"
    and "inputFileArgs arg = Some rd"
    and "writeTempFile env rd arg w1 = (Err err, w2)"
  shows "MappedFileRunner_Run env inner inputFileArgs outputFileArg r (pre @ arg # post) w
           = (Err err, w2)"
  using assms by (simp add: MappedFileRunner_Run_def stage_args_append)

theorem staging_failure_skips_inner_witness:
  "stage_args env0 inputs0 [''-T''] world_bad_reader = (Ok [''-T''], world_bad_reader)
   \<and> inputs0 ''in'' = Some 0
   \<and> fst (writeTempFile env0 0 ''in'' world_bad_reader) = Err (ErrorString ''read failed'')
   \<and> fst (MappedFileRunner_Run env0 (ExecRunner_Run env0 ''ld'') inputs0 ''out'' 0
             ([''-T''] @ ''in'' # [''-o'', ''out'']) world_bad_reader)
        = Err (ErrorString ''read failed'')
   \<and> log_lines (snd (MappedFileRunner_Run env0 (ExecRunner_Run env0 ''ld'') inputs0 ''out'' 0
             ([''-T''] @ ''in'' # [''-o'', ''out'']) world_bad_reader)) = []"
proof -
  have a: "stage_args env0 inputs0 [''-T''] world_bad_reader = (Ok [''-T''], world_bad_reader)"
    by (simp add: inputs0_def)
  have b: "inputs0 ''in'' = Some 0"
    by (simp add: inputs0_def)
  have c: "fst (writeTempFile env0 0 ''in'' world_bad_reader) = Err (ErrorString ''read failed'')"
    by (simp add: run_defs example_defs world_bad_reader_def)
  then have c': "writeTempFile env0 0 ''in'' world_bad_reader
       = (Err (ErrorString ''read failed''), snd (writeTempFile env0 0 ''in'' world_bad_reader))"
    by (metis prod.collapse)
  have l: "log_lines (snd (writeTempFile env0 0 ''in'' world_bad_reader)) = []"
    by (simp add: run_defs example_defs world_bad_reader_def)
  note run = staging_failure_skips_inner [OF a b c',
      of "ExecRunner_Run env0 ''ld''" "''out''" 0 "[''-o'', ''out'']"]
  have d: "fst (MappedFileRunner_Run env0 (ExecRunner_Run env0 ''ld'') inputs0 ''out'' 0
             ([''-T''] @ ''in'' # [''-o'', ''out'']) world_bad_reader)
        = Err (ErrorString ''read failed'')"
    unfolding run by simp
  have e: "log_lines (snd (MappedFileRunner_Run env0 (ExecRunner_Run env0 ''ld'') inputs0 ''out'' 0
             ([''-T''] @ ''in'' # [''-o'', ''out'']) world_bad_reader)) = []"
    unfolding run using l by simp
  show ?thesis
    by (rule conjI a b c d e)+
qed

subsection \<open>The stager's failure paths\<close>

text \<open>
  C4, at a reader that fails after its data: \<open>writeTempFile\<close> returns the read error
  that \<open>io.Copy\<close> reported, and the temp file it created is still held open (and keeps
  the bytes copied so far), since the error return after \<open>io.Copy\<close> comes before
  \<open>tmpfile.Close()\<close>.
\<close>

theorem writeTempFile_copy_failure_leaves_file_open:
  "fst (writeTempFile env0 0 ''in'' world_bad_reader) = Err (ErrorString ''read failed'')
   \<and> handles world_bad_reader = []
   \<and> handles (snd (writeTempFile env0 0 ''in'' world_bad_reader)) = [''/tmp/in0'']
   \<and> files (snd (writeTempFile env0 0 ''in'' world_bad_reader)) ''/tmp/in0'' = Some [1, 2, 3]"
  by (simp add: run_defs example_defs world_bad_reader_def)

subsection \<open>The output-file runner\<close>

text \<open>
  C3 as stated fails: after a successful inner run that did not produce \<open>rom.out\<close>, the
  error returned is the \<open>*os.PathError\<close> of \<open>os.Open\<close>, the generic I/O error.
\<close>

theorem OutputFileRunner_missing_output_counterexample:
  "fst (OutputFileRunner_Run env0 (ExecRunner_Run env0 ''ld'') ''rom.out'' 0 [''-o'', ''rom.out''] world0)
     = Err (PathError ''open'' ''rom.out'' ''no such file or directory'')
   \<and> is_generic_io_error (PathError ''open'' ''rom.out'' ''no such file or directory'')"
  by (simp add: OutputFileRunner_Run_def ExecRunner_Run_def logCommand_def cmd_Run_def
        new_reader_def os_Open_def is_generic_io_error_def run_defs example_defs)

text \<open>
  C3, amended. When the inner runner succeeds and \<open>os.Open\<close> of the expected output file
  fails, \<open>OutputFileRunner.Run\<close> fails with the error of \<open>os.Open\<close>, unchanged; for an
  absent file that is the generic \<open>*os.PathError\<close> "no such file or directory".
\<close>

theorem OutputFileRunner_open_failure:
  assumes "inner r args w = (Ok out, w1)"
    and "os_Open env expectedOutputFile w1 = (Inl err, w2)"
  shows "OutputFileRunner_Run env inner expectedOutputFile r args w = (Err err, w2)
    \<and> (files w1 expectedOutputFile = None \<longrightarrow>
          err = PathError ''open'' expectedOutputFile ''no such file or directory''
        \<and> is_generic_io_error err)"
  using assms
  by (auto simp: OutputFileRunner_Run_def os_Open_def is_generic_io_error_def)

theorem OutputFileRunner_open_failure_witness:
  "fst (ExecRunner_Run env0 ''ld'' 0 [''-o'', ''rom.out''] world0) = Ok 1
   \<and> fst (os_Open env0 ''rom.out'' (snd (ExecRunner_Run env0 ''ld'' 0 [''-o'', ''rom.out''] world0)))
        = Inl (PathError ''open'' ''rom.out'' ''no such file or directory'')
   \<and> fst (OutputFileRunner_Run env0 (ExecRunner_Run env0 ''ld'') ''rom.out'' 0 [''-o'', ''rom.out''] world0)
        = Err (PathError ''open'' ''rom.out'' ''no such file or directory'')"
proof -
  let ?w1 = "snd (ExecRunner_Run env0 ''ld'' 0 [''-o'', ''rom.out''] world0)"
  have a: "fst (ExecRunner_Run env0 ''ld'' 0 [''-o'', ''rom.out''] world0) = Ok 1"
    by (simp add: ExecRunner_Run_def logCommand_def cmd_Run_def new_reader_def run_defs example_defs)
  then have a': "ExecRunner_Run env0 ''ld'' 0 [''-o'', ''rom.out''] world0 = (Ok 1, ?w1)"
    by (metis prod.collapse)
  have b: "fst (os_Open env0 ''rom.out'' ?w1)
        = Inl (PathError ''open'' ''rom.out'' ''no such file or directory'')"
    by (simp add: ExecRunner_Run_def logCommand_def cmd_Run_def new_reader_def os_Open_def
          run_defs example_defs)
  then have b': "os_Open env0 ''rom.out'' ?w1
        = (Inl (PathError ''open'' ''rom.out'' ''no such file or directory''),
           snd (os_Open env0 ''rom.out'' ?w1))"
    by (metis prod.collapse)
  have c: "fst (OutputFileRunner_Run env0 (ExecRunner_Run env0 ''ld'') ''rom.out'' 0 [''-o'', ''rom.out''] world0)
        = Err (PathError ''open'' ''rom.out'' ''no such file or directory'')"
    using OutputFileRunner_open_failure [where inner = "ExecRunner_Run env0 ''ld''" and r = 0
        and args = "[''-o'', ''rom.out'']" and w = world0, OF a' b', THEN conjunct1]
    by simp
  show ?thesis
    by (rule conjI a b c)+
qed

subsection \<open>The direct runner\<close>





section \<open>Properties of cmd/spicy/main.go\<close>

subsection \<open>Evaluating the examples\<close>

lemma env0_sel:
  "tempfile_name env0 = (\<lambda>n pattern. ''/tmp/'' @ pattern @ decimal n)"
  "tempfile_fault env0 = (\<lambda>n pattern. None)"
  "abs_path env0 = (\<lambda>name. Inr name)"
  "write_fault env0 = (\<lambda>name data. None)"
  "close_fault env0 = (\<lambda>name. None)"
  "open_fault env0 = (\<lambda>name. None)"
  "read_fault env0 = (\<lambda>name. None)"
  "shellquote_Command env0 = (\<lambda>ws. Inr (concat (map (\<lambda>x. x @ '' '') ws)))"
  "spawn env0 = (\<lambda>command args input fs.
             \<lparr>pr_exit = Ended (ExitStatus 0), pr_stdout = input, pr_stderr = [],
              pr_files = fs\<rparr>)"
  by (simp_all add: env0_def)

lemma ext0_sel:
  "PreprocessSpec ext0 = (\<lambda>f gcc includes defines undefines.
              gcc f (''-E'' # includes @ defines @ undefines))"
  "ParseSpec ext0 = (\<lambda>preprocessed w. (Ok \<lparr>Waves = [wave_first, wave_second]\<rparr>, w))"
  "CreateRawObjectWrapper ext0 = (\<lambda>f outputName ld. ld f [''-r'', ''-o'', outputName])"
  "CreateEntryBinary ext0 = (\<lambda>wv asm w.
              (let (rd, w1) = new_reader
                     \<lparr>pending = (if Name wv = ''first'' then [1, 2, 3] else [9, 9]), fault = None\<rparr> w
               in (Ok rd, w1)))"
  "LinkSpec ext0 = (\<lambda>wv ld entry. ld entry [''-o'', ''linked.o''])"
  "BinarizeObject ext0 = (\<lambda>linkedObject objcopy. objcopy linkedObject [''-O'', ''binary''])"
  "CodeStart ext0 = 4"
  "blank_size ext0 = 8"
  "newrom_fault ext0 = (\<lambda>fill. None)"
  "rom_write_fault ext0 = (\<lambda>p off. None)"
  "rom_save_fault ext0 = (\<lambda>name. None)"
  "create_fault ext0 = (\<lambda>name. None)"
  "writeat_fault ext0 = (\<lambda>name off. None)"
  by (simp_all add: ext0_def)

text \<open>With the logger at \<open>WarnLevel\<close>, as \<open>mainE\<close> sets it, a run in \<open>env0\<close> prints nothing.\<close>

lemma ExecRunner_env0_quiet:
  assumes "log_level w = WarnLevel" and "fault (streams w r) = None"
  shows "ExecRunner_Run env0 command r args w =
    (Ok (next_reader w),
     w\<lparr>streams := (streams w)(r := (streams w r)\<lparr>pending := []\<rparr>,
                                next_reader w := \<lparr>pending = pending (streams w r), fault = None\<rparr>),
       next_reader := Suc (next_reader w)\<rparr>)"
  using assms
  by (simp add: ExecRunner_Run_def logCommand_def cmd_Run_def new_reader_def logf_def env0_sel Let_def)

lemma replicate_numeral: "replicate (numeral k) x = x # replicate (pred_numeral k) x"
  by (simp add: numeral_eq_Suc)

lemmas main_defs = mainE_def mainE_body_def finalize_def pad_output_def build_wave_def
  getCommand_def errorf_def os_Create_def rom_Save_def rom_WriteAt_def NewBlankRomFile_def
  ioutil_ReadAll_def file_WriteAt_def os_Open_def new_reader_def
  write_at_def byte_of_int_def file_Close_def file_contents_def Let_def

lemmas main_example_defs = ext0_sel env0_sel flags0_def world_main_def wave_first_def
  wave_second_def world0_def ExecRunner_env0_quiet

subsection \<open>The image buffer\<close>

lemma length_write_at: "length (write_at fill img off bs) = max (length img) (off + length bs)"
  by (auto simp: write_at_def)

lemma write_at_covers: "take (length bs) (drop off (write_at fill img off bs)) = bs"
  by (simp add: write_at_def)

lemma write_at_before:
  "i < off \<Longrightarrow> i < length img \<Longrightarrow> write_at fill img off bs ! i = img ! i"
  by (simp add: write_at_def nth_append)

lemma write_at_after:
  "off + length bs \<le> i \<Longrightarrow> i < length img \<Longrightarrow> write_at fill img off bs ! i = img ! i"
  by (auto simp: write_at_def nth_append min_def)

subsection \<open>Errors that do not end the run\<close>

text \<open>
  C2, at two inputs. The spec names the units \<open>first\<close> (which includes \<open>data.bin\<close>) and
  \<open>second\<close>. When every \<open>rom.WriteAt\<close> fails, \<open>mainE\<close> still returns nil and saves an
  image that holds no unit's bytes; when \<open>CreateRawObjectWrapper\<close> fails for \<open>data.bin\<close>,
  \<open>mainE\<close> still returns nil and saves the image of the two units.
\<close>

theorem mainE_drops_write_and_wrap_errors:
  "fst (rom_WriteAt ext_write_fails \<lparr>rom_fill = 0, rom_image = replicate 8 0\<rparr> [1, 2, 3]
          (CodeStart ext_write_fails)) = Some (ErrorString ''offset out of range'')
   \<and> fst (mainE env0 ext_write_fails flags0 world_main) = Ok ()
   \<and> files (snd (mainE env0 ext_write_fails flags0 world_main)) ''rom.n64''
        = Some [0, 0, 0, 0, 0, 0, 0, 0]
   \<and> fst (CreateRawObjectWrapper ext_wrap_fails 2 ''data.bin.o'' (ExecRunner_Run env0 ''mips64-elf-ld'')
            world_main) = Err (ErrorString ''ld failed'')
   \<and> fst (mainE env0 ext_wrap_fails flags0 world_main) = Ok ()
   \<and> files (snd (mainE env0 ext_wrap_fails flags0 world_main)) ''rom.n64''
        = Some [0, 0, 0, 0, 9, 9, 3, 0]"
proof -
  have a: "fst (rom_WriteAt ext_write_fails \<lparr>rom_fill = 0, rom_image = replicate 8 0\<rparr> [1, 2, 3]
          (CodeStart ext_write_fails)) = Some (ErrorString ''offset out of range'')"
    by (simp add: rom_WriteAt_def ext_write_fails_def)
  have b: "fst (mainE env0 ext_write_fails flags0 world_main) = Ok ()"
    by (simp add: main_defs main_example_defs ext_write_fails_def)
  have c: "files (snd (mainE env0 ext_write_fails flags0 world_main)) ''rom.n64''
        = Some [0, 0, 0, 0, 0, 0, 0, 0]"
    by (simp add: main_defs main_example_defs ext_write_fails_def) (simp add: replicate_numeral)
  have d: "fst (CreateRawObjectWrapper ext_wrap_fails 2 ''data.bin.o'' (ExecRunner_Run env0 ''mips64-elf-ld'')
            world_main) = Err (ErrorString ''ld failed'')"
    by (simp add: ext_wrap_fails_def)
  have e: "fst (mainE env0 ext_wrap_fails flags0 world_main) = Ok ()"
    by (simp add: main_defs main_example_defs ext_wrap_fails_def)
  have f: "files (snd (mainE env0 ext_wrap_fails flags0 world_main)) ''rom.n64''
        = Some [0, 0, 0, 0, 9, 9, 3, 0]"
    by (simp add: main_defs main_example_defs ext_wrap_fails_def) (simp add: replicate_numeral)
  show ?thesis
    by (rule conjI a b c d e f)+
qed

subsection \<open>Units written at the code-start offset\<close>

lemma run_waves_snoc:
  "run_waves env ext ld asm objcopy (units @ [u]) rom w =
     (case run_waves env ext ld asm objcopy units rom w of
        (Ok rom1, w1) \<Rightarrow> run_waves env ext ld asm objcopy [u] rom1 w1
      | (Err e, w1) \<Rightarrow> (Err e, w1)
      | (Panic p, w1) \<Rightarrow> (Panic p, w1))"
proof (induction units arbitrary: rom w)
  case Nil
  show ?case by simp
next
  case (Cons a units)
  show ?case
    by (simp add: Cons.IH Let_def split: prod.splits outcome.splits)
qed

text \<open>
  C5. Let the loop over the units before the last one end with the image \<open>rom1\<close>, let the
  last unit's binarized output be \<open>b\<close>, and let the write of \<open>b\<close> into the image succeed.
  Then the loop over all units ends with \<open>rom1\<close> after \<open>b\<close> was written at
  \<open>n64rom.CodeStart\<close>, the same offset for every unit: the \<open>length b\<close> bytes of the final
  image from that offset are \<open>b\<close>, and every byte of \<open>rom1\<close> outside that range, also
  one an earlier unit wrote, is still there.
\<close>

theorem last_unit_overwrites_code_start:
  assumes "run_waves env ext ld asm objcopy units rom w = (Ok rom1, w1)"
    and "build_wave env ext ld asm objcopy last_unit w1 = (Ok b, w2)"
    and "rom_write_fault ext b (CodeStart ext) = None"
  shows "run_waves env ext ld asm objcopy (units @ [last_unit]) rom w
           = (Ok (rom1\<lparr>rom_image := write_at (rom_fill rom1) (rom_image rom1) (CodeStart ext) b\<rparr>), w2)
    \<and> take (length b) (drop (CodeStart ext)
          (write_at (rom_fill rom1) (rom_image rom1) (CodeStart ext) b)) = b
    \<and> (\<forall>i. i < length (rom_image rom1) \<and> (i < CodeStart ext \<or> CodeStart ext + length b \<le> i) \<longrightarrow>
          write_at (rom_fill rom1) (rom_image rom1) (CodeStart ext) b ! i = rom_image rom1 ! i)"
  using assms
  by (auto simp: run_waves_snoc rom_WriteAt_def write_at_covers write_at_before write_at_after)

theorem last_unit_overwrites_code_start_witness:
  "fst (run_waves env0 ext0 (ExecRunner_Run env0 ''ld'') (ExecRunner_Run env0 ''as'')
          (ExecRunner_Run env0 ''objcopy'') [wave_first]
          \<lparr>rom_fill = 0, rom_image = [0, 0, 0, 0, 0, 0, 0, 0]\<rparr> (world_main\<lparr>log_level := WarnLevel\<rparr>))
     = Ok \<lparr>rom_fill = 0, rom_image = [0, 0, 0, 0, 1, 2, 3, 0]\<rparr>
   \<and> fst (build_wave env0 ext0 (ExecRunner_Run env0 ''ld'') (ExecRunner_Run env0 ''as'')
          (ExecRunner_Run env0 ''objcopy'') wave_second
          (snd (run_waves env0 ext0 (ExecRunner_Run env0 ''ld'') (ExecRunner_Run env0 ''as'')
             (ExecRunner_Run env0 ''objcopy'') [wave_first]
             \<lparr>rom_fill = 0, rom_image = [0, 0, 0, 0, 0, 0, 0, 0]\<rparr> (world_main\<lparr>log_level := WarnLevel\<rparr>))))
     = Ok [9, 9]
   \<and> rom_write_fault ext0 [9, 9] (CodeStart ext0) = None
   \<and> fst (run_waves env0 ext0 (ExecRunner_Run env0 ''ld'') (ExecRunner_Run env0 ''as'')
          (ExecRunner_Run env0 ''objcopy'') ([wave_first] @ [wave_second])
          \<lparr>rom_fill = 0, rom_image = [0, 0, 0, 0, 0, 0, 0, 0]\<rparr> (world_main\<lparr>log_level := WarnLevel\<rparr>))
     = Ok \<lparr>rom_fill = 0, rom_image = [0, 0, 0, 0, 9, 9, 3, 0]\<rparr>"
proof -
  let ?ld = "ExecRunner_Run env0 ''ld''" and ?asm = "ExecRunner_Run env0 ''as''"
    and ?objcopy = "ExecRunner_Run env0 ''objcopy''"
  let ?rom = "\<lparr>rom_fill = 0, rom_image = [0, 0, 0, 0, 0, 0, 0, 0]\<rparr>"
  let ?w = "world_main\<lparr>log_level := WarnLevel\<rparr>"
  let ?w1 = "snd (run_waves env0 ext0 ?ld ?asm ?objcopy [wave_first] ?rom ?w)"
  let ?w2 = "snd (build_wave env0 ext0 ?ld ?asm ?objcopy wave_second ?w1)"
  have a: "fst (run_waves env0 ext0 ?ld ?asm ?objcopy [wave_first] ?rom ?w)
             = Ok \<lparr>rom_fill = 0, rom_image = [0, 0, 0, 0, 1, 2, 3, 0]\<rparr>"
    by (simp add: main_defs main_example_defs)
  then have a': "run_waves env0 ext0 ?ld ?asm ?objcopy [wave_first] ?rom ?w
             = (Ok \<lparr>rom_fill = 0, rom_image = [0, 0, 0, 0, 1, 2, 3, 0]\<rparr>, ?w1)"
    by (metis prod.collapse)
  have b: "fst (build_wave env0 ext0 ?ld ?asm ?objcopy wave_second ?w1) = Ok [9, 9]"
    by (simp add: main_defs main_example_defs)
  then have b': "build_wave env0 ext0 ?ld ?asm ?objcopy wave_second ?w1 = (Ok [9, 9], ?w2)"
    by (metis prod.collapse)
  have c: "rom_write_fault ext0 [9, 9] (CodeStart ext0) = None"
    by (simp add: ext0_sel)
  have d: "fst (run_waves env0 ext0 ?ld ?asm ?objcopy ([wave_first] @ [wave_second]) ?rom ?w)
     = Ok \<lparr>rom_fill = 0, rom_image = [0, 0, 0, 0, 9, 9, 3, 0]\<rparr>"
    using last_unit_overwrites_code_start [OF a' b' c, THEN conjunct1]
    by (simp add: write_at_def ext0_sel)
  show ?thesis
    by (rule conjI a b c d)+
qed

subsection \<open>Padding to the minimum size\<close>

lemma int64_wrap_id: "- (2 ^ 63) \<le> x \<Longrightarrow> x < 2 ^ 63 \<Longrightarrow> int64_wrap x = x"
  by (simp add: int64_wrap_def)

lemma minSize_exact:
  assumes "0 < s" and "s \<le> 9223372036854"
  shows "minSize s = 1000000 * s div 8"
proof -
  have "int64_wrap (1000000 * s) = 1000000 * s"
    using assms by (intro int64_wrap_id) simp_all
  moreover have "go_quot (1000000 * s) 8 = 1000000 * s div 8"
    using assms by (simp add: go_quot_def sgn_if)
  ultimately show ?thesis by (simp add: minSize_def)
qed

lemma finalize_OkE:
  assumes "finalize env ext fl rom w0 = (Ok (), w')"
  obtains w1 w2 w3 where
    "os_Create ext (romImageFile fl) w0 = (Inr (romImageFile fl), w1)"
    "pad_output ext (romsizeMbits fl) (romImageFile fl) w1 = (None, w2)"
    "rom_Save ext rom (romImageFile fl) w2 = (None, w3)"
    "file_Close env (romImageFile fl) w3 = (None, w')"
proof -
  from assms obtain out w1 where c: "os_Create ext (romImageFile fl) w0 = (Inr out, w1)"
    by (auto simp: finalize_def split: prod.splits sum.splits)
  then have out: "out = romImageFile fl"
    by (auto simp: os_Create_def split: option.splits)
  from assms c obtain w2 where p: "pad_output ext (romsizeMbits fl) out w1 = (None, w2)"
    by (auto simp: finalize_def split: prod.splits option.splits)
  from assms c p obtain w3 where s: "rom_Save ext rom out w2 = (None, w3)"
    by (auto simp: finalize_def split: prod.splits option.splits)
  from assms c p s have cl: "file_Close env out w3 = (None, w')"
    by (auto simp: finalize_def split: prod.splits option.splits)
  from c p s cl out that show thesis by simp
qed

lemma os_Create_files:
  "os_Create ext name w0 = (Inr out, w1) \<Longrightarrow> files w1 name = Some []"
  by (auto simp: os_Create_def split: option.splits)

lemma file_WriteAt_pad:
  assumes "file_WriteAt ext name [0] off w1 = (None, w2)" and "files w1 name = Some []"
  shows "0 \<le> off \<and> files w2 name = Some (replicate (nat off) 0 @ [0])"
  using assms
  by (auto simp: file_WriteAt_def file_contents_def write_at_def split: if_splits option.splits)

lemma rom_Save_files:
  assumes "rom_Save ext rom name w2 = (None, w3)" and "files w2 name = Some c"
  shows "files w3 name = Some (rom_image rom @ drop (length (rom_image rom)) c)"
  using assms
  by (auto simp: rom_Save_def file_contents_def write_at_def split: option.splits)

lemma file_Close_files: "file_Close env name w3 = (e, w') \<Longrightarrow> files w' = files w3"
  by (auto simp: file_Close_def)

text \<open>
  C6 as stated fails for a size whose product with 1,000,000 does not fit Go's 64-bit
  \<open>int\<close>: for \<open>-s 9223372036855\<close> the product wraps around, \<open>minSize\<close> is negative
  instead of 1,000,000*s/8, and the padding write fails with "negative offset".
\<close>

theorem padding_overflow_counterexample:
  "(0::int) < 9223372036855
   \<and> minSize 9223372036855 = - 1152921504606818952
   \<and> 1000000 * 9223372036855 div 8 = (1152921504606875000::int)
   \<and> fst (finalize env0 ext0 (flags0\<lparr>romsizeMbits := 9223372036855\<rparr>)
            \<lparr>rom_fill = 0, rom_image = [1, 2, 3]\<rparr> world0)
        = Err (PathError ''writeat'' ''rom.n64'' ''negative offset'')"
  by (simp add: minSize_def int64_wrap_def go_quot_def finalize_def pad_output_def os_Create_def
        file_WriteAt_def ext0_sel flags0_def)

text \<open>
  C6, amended. For a target size \<open>s\<close> that is not positive, the padding block writes
  nothing and leaves the world as it is, and a successful finalization leaves exactly the
  image in the output file. For \<open>0 < s \<le> 9223372036854\<close>, the sizes whose product with
  1,000,000 fits Go's 64-bit \<open>int\<close>, \<open>minSize\<close> is exactly 1,000,000*s/8 and the block is
  the write of one zero byte at that offset of the output file. A successful
  finalization then is: the file is created empty, the zero byte is written at
  \<open>minSize\<close> (the file is \<open>minSize\<close> zero bytes and that byte), the image is saved into
  the file so padded, and the file is closed. The output file holds the image followed by
  what of the padding lies beyond the image's length, so it is longer than \<open>minSize\<close>
  bytes, and where the image reaches the padding the image's bytes stand.
\<close>

theorem padding_to_min_size:
  "(s \<le> 0 \<longrightarrow>
        pad_output ext s out w = (None, w)
      \<and> (\<forall>fl rom w0 w'. romsizeMbits fl = s \<and> finalize env ext fl rom w0 = (Ok (), w') \<longrightarrow>
            files w' (romImageFile fl) = Some (rom_image rom)))
   \<and> (0 < s \<and> s \<le> 9223372036854 \<longrightarrow>
        minSize s = 1000000 * s div 8
      \<and> pad_output ext s out w = file_WriteAt ext out [0] (1000000 * s div 8) w
      \<and> (\<forall>fl rom w0 w'. romsizeMbits fl = s \<and> finalize env ext fl rom w0 = (Ok (), w') \<longrightarrow>
            (\<exists>w1 w2 w3.
                os_Create ext (romImageFile fl) w0 = (Inr (romImageFile fl), w1)
              \<and> file_WriteAt ext (romImageFile fl) [0] (1000000 * s div 8) w1 = (None, w2)
              \<and> files w2 (romImageFile fl) = Some (replicate (nat (1000000 * s div 8)) 0 @ [0])
              \<and> rom_Save ext rom (romImageFile fl) w2 = (None, w3)
              \<and> file_Close env (romImageFile fl) w3 = (None, w'))
          \<and> files w' (romImageFile fl)
              = Some (rom_image rom
                      @ drop (length (rom_image rom)) (replicate (nat (1000000 * s div 8)) 0 @ [0]))
          \<and> nat (1000000 * s div 8) + 1 \<le> length (file_contents w' (romImageFile fl))))"
proof (intro conjI impI allI)
  assume "s \<le> 0"
  then show "pad_output ext s out w = (None, w)"
    by (simp add: pad_output_def)
next
  fix fl rom w0 w'
  assume s: "s \<le> 0" and f: "romsizeMbits fl = s \<and> finalize env ext fl rom w0 = (Ok (), w')"
  from f obtain w1 w2 w3 where
    c: "os_Create ext (romImageFile fl) w0 = (Inr (romImageFile fl), w1)"
    and p: "pad_output ext (romsizeMbits fl) (romImageFile fl) w1 = (None, w2)"
    and sv: "rom_Save ext rom (romImageFile fl) w2 = (None, w3)"
    and cl: "file_Close env (romImageFile fl) w3 = (None, w')"
    by (auto elim: finalize_OkE)
  from p s f have "w2 = w1" by (simp add: pad_output_def)
  with os_Create_files [OF c] have "files w2 (romImageFile fl) = Some []" by simp
  from rom_Save_files [OF sv this] file_Close_files [OF cl]
  show "files w' (romImageFile fl) = Some (rom_image rom)" by simp
next
  assume "0 < s \<and> s \<le> 9223372036854"
  then show "minSize s = 1000000 * s div 8"
    by (simp add: minSize_exact)
next
  assume "0 < s \<and> s \<le> 9223372036854"
  then show "pad_output ext s out w = file_WriteAt ext out [0] (1000000 * s div 8) w"
    by (simp add: pad_output_def minSize_exact)
next
  fix fl rom w0 w'
  assume s: "0 < s \<and> s \<le> 9223372036854"
    and f: "romsizeMbits fl = s \<and> finalize env ext fl rom w0 = (Ok (), w')"
  from f obtain w1 w2 w3 where
    c: "os_Create ext (romImageFile fl) w0 = (Inr (romImageFile fl), w1)"
    and p: "pad_output ext (romsizeMbits fl) (romImageFile fl) w1 = (None, w2)"
    and sv: "rom_Save ext rom (romImageFile fl) w2 = (None, w3)"
    and cl: "file_Close env (romImageFile fl) w3 = (None, w')"
    by (auto elim: finalize_OkE)
  from p s f have wa: "file_WriteAt ext (romImageFile fl) [0] (1000000 * s div 8) w1 = (None, w2)"
    by (simp add: pad_output_def minSize_exact)
  from file_WriteAt_pad [OF wa os_Create_files [OF c]]
  have pad: "files w2 (romImageFile fl) = Some (replicate (nat (1000000 * s div 8)) 0 @ [0])"
    by simp
  from c wa pad sv cl
  show "\<exists>w1 w2 w3.
                os_Create ext (romImageFile fl) w0 = (Inr (romImageFile fl), w1)
              \<and> file_WriteAt ext (romImageFile fl) [0] (1000000 * s div 8) w1 = (None, w2)
              \<and> files w2 (romImageFile fl) = Some (replicate (nat (1000000 * s div 8)) 0 @ [0])
              \<and> rom_Save ext rom (romImageFile fl) w2 = (None, w3)
              \<and> file_Close env (romImageFile fl) w3 = (None, w')"
    by blast
  from rom_Save_files [OF sv pad] file_Close_files [OF cl]
  show fin: "files w' (romImageFile fl)
              = Some (rom_image rom
                      @ drop (length (rom_image rom)) (replicate (nat (1000000 * s div 8)) 0 @ [0]))"
    by simp
  show "nat (1000000 * s div 8) + 1 \<le> length (file_contents w' (romImageFile fl))"
    unfolding file_contents_def fin by simp
qed

theorem padding_to_min_size_witness:
  "(0::int) < 8 \<and> (8::int) \<le> 9223372036854
   \<and> minSize 8 = 1000000
   \<and> fst (finalize env0 ext0 (flags0\<lparr>romsizeMbits := 8\<rparr>) \<lparr>rom_fill = 0, rom_image = [1, 2, 3]\<rparr> world0)
        = Ok ()
   \<and> files (snd (finalize env0 ext0 (flags0\<lparr>romsizeMbits := 8\<rparr>) \<lparr>rom_fill = 0, rom_image = [1, 2, 3]\<rparr> world0))
        ''rom.n64'' = Some ([1, 2, 3] @ replicate 999997 0 @ [0])
   \<and> 1000001 \<le> length (file_contents
        (snd (finalize env0 ext0 (flags0\<lparr>romsizeMbits := 8\<rparr>) \<lparr>rom_fill = 0, rom_image = [1, 2, 3]\<rparr> world0))
        ''rom.n64'')
   \<and> fst (finalize env0 ext0 (flags0\<lparr>romsizeMbits := 1\<rparr>)
            \<lparr>rom_fill = 0, rom_image = replicate 125001 1\<rparr> world0) = Ok ()
   \<and> files (snd (finalize env0 ext0 (flags0\<lparr>romsizeMbits := 1\<rparr>)
            \<lparr>rom_fill = 0, rom_image = replicate 125001 1\<rparr> world0)) ''rom.n64''
        = Some (replicate 125001 1)
   \<and> pad_output ext0 (- 1) ''rom.n64'' world0 = (None, world0)
   \<and> files (snd (finalize env0 ext0 flags0 \<lparr>rom_fill = 0, rom_image = [1, 2, 3]\<rparr> world0)) ''rom.n64''
        = Some [1, 2, 3]"
proof -
  let ?fl8 = "flags0\<lparr>romsizeMbits := 8\<rparr>" and ?fl1 = "flags0\<lparr>romsizeMbits := 1\<rparr>"
  let ?rom = "\<lparr>rom_fill = 0, rom_image = [1, 2, 3]\<rparr>"
  let ?big = "\<lparr>rom_fill = 0, rom_image = replicate 125001 1\<rparr>"
  let ?w8 = "snd (finalize env0 ext0 ?fl8 ?rom world0)"
  let ?w1 = "snd (finalize env0 ext0 ?fl1 ?big world0)"
  let ?w0 = "snd (finalize env0 ext0 flags0 ?rom world0)"
  note fin_defs = finalize_def pad_output_def os_Create_def file_WriteAt_def rom_Save_def
    file_Close_def minSize_def int64_wrap_def go_quot_def ext0_sel env0_sel flags0_def
  note inst8 = padding_to_min_size [of 8 ext0 "''rom.n64''" world0 env0]
  note inst1 = padding_to_min_size [of 1 ext0 "''rom.n64''" world0 env0]
  note neg = padding_to_min_size [of "- 1" ext0 "''rom.n64''" world0 env0]
  have r8: "(0::int) < 8 \<and> (8::int) \<le> 9223372036854" by simp
  have r1: "(0::int) < 1 \<and> (1::int) \<le> 9223372036854" by simp
  have rn: "(- 1::int) \<le> 0" by simp
  have m: "minSize 8 = 1000000"
    using inst8 [THEN conjunct2, rule_format, OF r8, THEN conjunct1] by simp
  have a8: "fst (finalize env0 ext0 ?fl8 ?rom world0) = Ok ()"
    by (simp add: fin_defs)
  then have a8': "romsizeMbits ?fl8 = 8 \<and> finalize env0 ext0 ?fl8 ?rom world0 = (Ok (), ?w8)"
    by (simp add: prod_eq_iff)
  note c8 = inst8 [THEN conjunct2, rule_format, OF r8, THEN conjunct2, THEN conjunct2,
      rule_format, OF a8']
  have f8: "files ?w8 ''rom.n64'' = Some ([1, 2, 3] @ replicate 999997 0 @ [0])"
    using c8 [THEN conjunct2, THEN conjunct1] by (simp add: flags0_def)
  have l8: "1000001 \<le> length (file_contents ?w8 ''rom.n64'')"
    using c8 [THEN conjunct2, THEN conjunct2] by (simp add: flags0_def)
  have a1: "fst (finalize env0 ext0 ?fl1 ?big world0) = Ok ()"
    by (simp add: fin_defs)
  then have a1': "romsizeMbits ?fl1 = 1 \<and> finalize env0 ext0 ?fl1 ?big world0 = (Ok (), ?w1)"
    by (simp add: prod_eq_iff)
  have f1: "files ?w1 ''rom.n64'' = Some (replicate 125001 1)"
    using inst1 [THEN conjunct2, rule_format, OF r1, THEN conjunct2, THEN conjunct2,
      rule_format, OF a1', THEN conjunct2, THEN conjunct1]
    by (simp add: flags0_def)
  have n: "pad_output ext0 (- 1) ''rom.n64'' world0 = (None, world0)"
    using neg [THEN conjunct1, rule_format, OF rn, THEN conjunct1] .
  have a0: "fst (finalize env0 ext0 flags0 ?rom world0) = Ok ()"
    by (simp add: fin_defs)
  then have a0': "romsizeMbits flags0 = - 1 \<and> finalize env0 ext0 flags0 ?rom world0 = (Ok (), ?w0)"
    by (simp add: prod_eq_iff flags0_def)
  have f0: "files ?w0 ''rom.n64'' = Some [1, 2, 3]"
    using neg [THEN conjunct1, rule_format, OF rn, THEN conjunct2, rule_format, OF a0']
    by (simp add: flags0_def)
  show ?thesis
    by (rule conjI r8 [THEN conjunct1] r8 [THEN conjunct2] m a8 f8 l8 a1 f1 n f0)+
qed

subsection \<open>The fill byte\<close>

lemma byte_of_int_mod: "byte_of_int (x mod 256) = byte_of_int x"
  by (simp add: byte_of_int_def word_of_int_eq_iff take_bit_eq_mod)

text \<open>
  C8 as stated fails: with \<open>-f 256\<close>, a value outside 0x0-0xff, the image is initialized
  with the byte 0 and the run succeeds, as it does with \<open>-f 0\<close>.
\<close>

theorem fill_byte_out_of_range_counterexample:
  "\<not> (0 \<le> (256::int) \<and> (256::int) \<le> 255)
   \<and> NewBlankRomFile ext0 (byte_of_int 256) = Inr \<lparr>rom_fill = 0, rom_image = replicate 8 0\<rparr>
   \<and> fst (mainE env0 ext0 (flags0\<lparr>filldata := 256\<rparr>) world_main) = Ok ()
   \<and> files (snd (mainE env0 ext0 (flags0\<lparr>filldata := 256\<rparr>) world_main)) ''rom.n64''
        = Some [0, 0, 0, 0, 9, 9, 3, 0]"
proof -
  have a: "\<not> (0 \<le> (256::int) \<and> (256::int) \<le> 255)" by simp
  have b: "NewBlankRomFile ext0 (byte_of_int 256) = Inr \<lparr>rom_fill = 0, rom_image = replicate 8 0\<rparr>"
    by (simp add: NewBlankRomFile_def byte_of_int_def ext0_sel)
  have c: "fst (mainE env0 ext0 (flags0\<lparr>filldata := 256\<rparr>) world_main) = Ok ()"
    by (simp add: main_defs main_example_defs)
  have d: "files (snd (mainE env0 ext0 (flags0\<lparr>filldata := 256\<rparr>) world_main)) ''rom.n64''
        = Some [0, 0, 0, 0, 9, 9, 3, 0]"
    by (simp add: main_defs main_example_defs) (simp add: replicate_numeral)
  show ?thesis
    by (rule conjI a b c d)+
qed

lemma finalize_filldata: "finalize env ext (fl\<lparr>filldata := x\<rparr>) rom w = finalize env ext fl rom w"
  by (simp add: finalize_def cong: prod.case_cong sum.case_cong option.case_cong)

lemma mainE_body_filldata:
  "mainE_body env ext (fl\<lparr>filldata := x\<rparr>) f w = mainE_body env ext (fl\<lparr>filldata := x mod 256\<rparr>) f w"
  unfolding mainE_body_def
  by (simp add: finalize_filldata getCommand_def byte_of_int_mod
      cong: prod.case_cong sum.case_cong outcome.case_cong)

text \<open>
  C8, amended. \<open>mainE\<close> hands \<open>n64rom.NewBlankRomFile\<close> the byte \<open>byte(*filldata)\<close>, the
  configured value modulo 256: a run with any fill value, in range or not, is the run
  with that value reduced modulo 256, so initialization fails for an out-of-range value
  only if it fails for the in-range byte it is truncated to.
\<close>

theorem fill_byte_is_truncated:
  "NewBlankRomFile ext (byte_of_int x) = NewBlankRomFile ext (byte_of_int (x mod 256))
   \<and> mainE env ext (fl\<lparr>filldata := x\<rparr>) w = mainE env ext (fl\<lparr>filldata := x mod 256\<rparr>) w"
  unfolding mainE_def
  by (simp add: mainE_body_filldata [where x = x and fl = fl] byte_of_int_mod
      cong: prod.case_cong sum.case_cong)

subsection \<open>Errors that end the run\<close>

text \<open>
  With no positional argument \<open>mainE\<close> fails with "missing argument: <spec>", and with
  more than one it reports how many it got, before anything is opened or run.
\<close>

theorem mainE_usage_errors:
  "mainE env ext (fl\<lparr>positional := []\<rparr>) w = (Err (ErrorString ''missing argument: <spec>''), w)
   \<and> mainE env ext (fl\<lparr>positional := [a, b]\<rparr>) w
       = (Err (ErrorString ''invalid usage: got 2 arguments, expected exactly 1''), w)"
  by (simp add: mainE_def decimal_digit)

text \<open>
  When the one positional argument names a file that does not exist, \<open>mainE\<close> fails with
  "could not open spec: " followed by the error of \<open>os.Open\<close>, and no program is run.
\<close>

theorem mainE_missing_spec:
  assumes "positional fl = [name]" and "files w name = None"
  shows "mainE env ext fl w =
     (Err (ErrorString (''could not open spec: open '' @ name @ '': no such file or directory'')),
      w\<lparr>log_level := (if verbose fl then DebugLevel else WarnLevel)\<rparr>)"
  using assms by (simp add: mainE_def os_Open_def errorf_def)

theorem mainE_missing_spec_witness:
  "positional flags0 = [''spec''] \<and> files world0 ''spec'' = None
   \<and> fst (mainE env0 ext0 flags0 world0)
       = Err (ErrorString ''could not open spec: open spec: no such file or directory'')"
proof -
  have a: "positional flags0 = [''spec'']" by (simp add: flags0_def)
  have b: "files world0 ''spec'' = None" by (simp add: world0_def)
  have c: "fst (mainE env0 ext0 flags0 world0)
       = Err (ErrorString ''could not open spec: open spec: no such file or directory'')"
    unfolding mainE_missing_spec [OF a b] by simp
  show ?thesis
    by (rule conjI a b c)+
qed

lemma run_waves_append:
  "run_waves env ext ld asm objcopy (xs @ ys) rom w =
     (case run_waves env ext ld asm objcopy xs rom w of
        (Ok rom1, w1) \<Rightarrow> run_waves env ext ld asm objcopy ys rom1 w1
      | (Err e, w1) \<Rightarrow> (Err e, w1)
      | (Panic p, w1) \<Rightarrow> (Panic p, w1))"
proof (induction xs arbitrary: rom w)
  case Nil
  show ?case by simp
next
  case (Cons a xs)
  show ?case
    by (simp add: Cons.IH Let_def split: prod.splits outcome.splits)
qed

text \<open>
  When \<open>spicy.LinkSpec\<close> fails for a unit, after the units before it were processed and
  the unit's includes and entry binary were made, the loop over the units ends there
  with "spicy.LinkSpec: " and the linker step's error: no later unit is processed and
  nothing is written into the image for the unit.
\<close>

theorem link_failure_aborts_loop:
  assumes "run_waves env ext ld asm objcopy units rom w = (Ok rom1, w1)"
    and "wrap_segments env ext ld (RawSegments u) w1 = (Ok (), w2)"
    and "CreateEntryBinary ext u asm w2 = (Ok entry, w3)"
    and "LinkSpec ext u ld entry w3 = (Err e, w4)"
  shows "run_waves env ext ld asm objcopy (units @ u # rest) rom w
           = (Err (ErrorString (''spicy.LinkSpec: '' @ error_Error e)), w4)"
  using assms by (simp add: run_waves_append build_wave_def errorf_def)

theorem link_failure_aborts_loop_witness:
  "fst (CreateEntryBinary ext_link_fails wave_second (ExecRunner_Run env0 ''as'')
          (world_main\<lparr>log_level := WarnLevel\<rparr>)) = Ok 1
   \<and> fst (LinkSpec ext_link_fails wave_second (ExecRunner_Run env0 ''ld'') 1
          (snd (CreateEntryBinary ext_link_fails wave_second (ExecRunner_Run env0 ''as'')
             (world_main\<lparr>log_level := WarnLevel\<rparr>)))) = Err (ErrorString ''undefined symbol'')
   \<and> fst (run_waves env0 ext_link_fails (ExecRunner_Run env0 ''ld'') (ExecRunner_Run env0 ''as'')
          (ExecRunner_Run env0 ''objcopy'') ([] @ wave_second # [wave_first])
          \<lparr>rom_fill = 0, rom_image = [0, 0, 0, 0, 0, 0, 0, 0]\<rparr> (world_main\<lparr>log_level := WarnLevel\<rparr>))
       = Err (ErrorString ''spicy.LinkSpec: undefined symbol'')"
proof -
  let ?ld = "ExecRunner_Run env0 ''ld''" and ?asm = "ExecRunner_Run env0 ''as''"
    and ?objcopy = "ExecRunner_Run env0 ''objcopy''"
  let ?rom = "\<lparr>rom_fill = 0, rom_image = [0, 0, 0, 0, 0, 0, 0, 0]\<rparr>"
  let ?w = "world_main\<lparr>log_level := WarnLevel\<rparr>"
  let ?w3 = "snd (CreateEntryBinary ext_link_fails wave_second ?asm ?w)"
  have a: "run_waves env0 ext_link_fails ?ld ?asm ?objcopy [] ?rom ?w = (Ok ?rom, ?w)"
    by simp
  have b: "wrap_segments env0 ext_link_fails ?ld (RawSegments wave_second) ?w = (Ok (), ?w)"
    by (simp add: wave_second_def)
  have c: "fst (CreateEntryBinary ext_link_fails wave_second ?asm ?w) = Ok 1"
    by (simp add: ext_link_fails_def ext0_sel new_reader_def world_main_def world0_def)
  then have c': "CreateEntryBinary ext_link_fails wave_second ?asm ?w = (Ok 1, ?w3)"
    by (metis prod.collapse)
  have d: "LinkSpec ext_link_fails wave_second ?ld 1 ?w3 = (Err (ErrorString ''undefined symbol''), ?w3)"
    by (simp add: ext_link_fails_def)
  have e: "fst (run_waves env0 ext_link_fails ?ld ?asm ?objcopy ([] @ wave_second # [wave_first]) ?rom ?w)
       = Err (ErrorString ''spicy.LinkSpec: undefined symbol'')"
    unfolding link_failure_aborts_loop [OF a b c' d] by simp
  have d2: "fst (LinkSpec ext_link_fails wave_second ?ld 1 ?w3) = Err (ErrorString ''undefined symbol'')"
    unfolding d by simp
  show ?thesis
    by (rule conjI c d2 e)+
qed

end
